theory Spec2Isabelle
  imports Main
begin

section \<open>Values, failures and checked arithmetic\<close>

text \<open>
  The contracts are written for Solidity \<open>^0.8.0\<close> with \<open>using SafeMath for uint\<close>:
  every \<open>uint\<close> is a 256-bit unsigned integer, and an addition, subtraction or
  multiplication whose result leaves the range aborts the call; a division by zero aborts
  it too. Amounts are modelled as \<open>nat\<close> with these checks written out. A \<open>require\<close>
  that fails aborts the call with its reason string, which the model keeps verbatim.
\<close>

type_synonym address = nat

datatype error =
    Revert string      \<comment> \<open>a failed \<open>require\<close>, with its reason string\<close>
  | Overflow           \<comment> \<open>checked arithmetic left the range of the type\<close>
  | DivisionByZero
  | AssertFailed       \<comment> \<open>a failed \<open>assert\<close>\<close>
  | IndexOutOfBounds   \<comment> \<open>an array access outside the array\<close>
  | CallFailed         \<comment> \<open>an external call that reverted, or a call to an address without code\<close>

type_synonym 'a result = "error + 'a"

definition MAX_UINT256 :: nat where
  "MAX_UINT256 = 2 ^ 256 - 1"

definition MAX_UINT112 :: nat where
  "MAX_UINT112 = 2 ^ 112 - 1"

definition bind :: "'a result \<Rightarrow> ('a \<Rightarrow> 'b result) \<Rightarrow> 'b result" where
  "bind m f = (case m of Inl e \<Rightarrow> Inl e | Inr v \<Rightarrow> f v)"

definition require :: "bool \<Rightarrow> string \<Rightarrow> unit result" where
  "require c reason = (if c then Inr () else Inl (Revert reason))"

definition add :: "nat \<Rightarrow> nat \<Rightarrow> nat result" where
  "add a b = (if a + b \<le> MAX_UINT256 then Inr (a + b) else Inl Overflow)"

definition sub :: "nat \<Rightarrow> nat \<Rightarrow> nat result" where
  "sub a b = (if b \<le> a then Inr (a - b) else Inl Overflow)"

definition mul :: "nat \<Rightarrow> nat \<Rightarrow> nat result" where
  "mul a b = (if a * b \<le> MAX_UINT256 then Inr (a * b) else Inl Overflow)"

definition udiv :: "nat \<Rightarrow> nat \<Rightarrow> nat result" where
  "udiv a b = (if b = 0 then Inl DivisionByZero else Inr (a div b))"

section \<open>Library \<open>Math\<close>\<close>

definition Math_min :: "nat \<Rightarrow> nat \<Rightarrow> nat" where
  "Math_min x y = (if x < y then x else y)"

text \<open>
  The loop \<open>while (x < z) { z = x; x = (y / x + x) / 2; }\<close> of \<open>Math.sqrt\<close>, on the
  loop variables \<open>z\<close> and \<open>x\<close>.
\<close>

function sqrt_loop :: "nat \<Rightarrow> nat \<Rightarrow> nat \<Rightarrow> nat result" where
  "sqrt_loop y z x =
     (if x < z then
        (if x = 0 then Inl DivisionByZero
         else if y div x + x \<le> MAX_UINT256 then sqrt_loop y x ((y div x + x) div 2)
         else Inl Overflow)
      else Inr z)"
  by pat_completeness auto
termination
  by (relation "measure (\<lambda>(y, z, x). z)") auto

definition Math_sqrt :: "nat \<Rightarrow> nat result" where
  "Math_sqrt y =
     (if y > 3 then bind (add (y div 2) 1) (\<lambda>x. sqrt_loop y y x)
      else if y \<noteq> 0 then Inr 1
      else Inr 0)"

section \<open>Router: the pure quoting functions\<close>

definition quote :: "nat \<Rightarrow> nat \<Rightarrow> nat \<Rightarrow> nat result" where
  "quote amountA reserveA reserveB =
     bind (require (amountA > 0) ''DiamondRouter: INSUFFICIENT_AMOUNT'') (\<lambda>_.
     bind (require (reserveA > 0 \<and> reserveB > 0) ''DiamondRouter: INSUFFICIENT_LIQUIDITY'') (\<lambda>_.
     bind (mul amountA reserveB) (\<lambda>n.
     udiv n reserveA)))"

definition getAmountOut :: "nat \<Rightarrow> nat \<Rightarrow> nat \<Rightarrow> nat result" where
  "getAmountOut amountIn reserveIn reserveOut =
     bind (require (amountIn > 0) ''DiamondRouter: INSUFFICIENT_INPUT_AMOUNT'') (\<lambda>_.
     bind (require (reserveIn > 0 \<and> reserveOut > 0) ''DiamondRouter: INSUFFICIENT_LIQUIDITY'') (\<lambda>_.
     bind (mul amountIn 997) (\<lambda>amountInWithFee.
     bind (mul amountInWithFee reserveOut) (\<lambda>numerator.
     bind (mul reserveIn 1000) (\<lambda>r.
     bind (add r amountInWithFee) (\<lambda>denominator.
     udiv numerator denominator))))))"

definition getAmountIn :: "nat \<Rightarrow> nat \<Rightarrow> nat \<Rightarrow> nat result" where
  "getAmountIn amountOut reserveIn reserveOut =
     bind (require (amountOut > 0) ''DiamondRouter: INSUFFICIENT_OUTPUT_AMOUNT'') (\<lambda>_.
     bind (require (reserveIn > 0 \<and> reserveOut > 0) ''DiamondRouter: INSUFFICIENT_LIQUIDITY'') (\<lambda>_.
     bind (mul reserveIn amountOut) (\<lambda>n.
     bind (mul n 1000) (\<lambda>numerator.
     bind (sub reserveOut amountOut) (\<lambda>d.
     bind (mul d 997) (\<lambda>denominator.
     bind (udiv numerator denominator) (\<lambda>q.
     add q 1)))))))"


section \<open>External calls\<close>

text \<open>
  Tokens, the flash-swap callee and (for the router) the pools are reached through
  external calls. The model records every state-changing external call in a trace, in the
  order the code issues it, and takes its outcome from the environment: the theorems hold
  for every outcome, so for every token. A call that aborts returns no state: the
  stored state stays as it was before the call (\<open>commit\<close> below).

  The \<open>nonReentrant\<close> modifier (an imported guard) rejects a call that arrives while
  another call of the same contract is still running. The model describes the calls that
  arrive while none is running; the guard is what allows an external call to be
  represented by its answer alone, since it cannot change the contract's own state.
\<close>

type_synonym bytes = "nat list"

datatype ext_call =
    Transfer address address nat
      \<comment> \<open>\<open>token.transfer(to, value)\<close>: token, to, value\<close>
  | TransferFrom address address address nat
      \<comment> \<open>\<open>token.transferFrom(from, to, value)\<close>: token, from, to, value\<close>
  | DiamondCall address address nat nat bytes
      \<comment> \<open>\<open>IDiamondCallee(to).diamondCall(sender, amount0, amount1, data)\<close>\<close>
  | PairSwap address nat nat address bytes
      \<comment> \<open>\<open>IDiamondPair(pair).swap(amount0Out, amount1Out, to, data)\<close>\<close>
  | PairMint address address
      \<comment> \<open>\<open>IDiamondPair(pair).mint(to)\<close>\<close>

record env =
  block_timestamp :: nat
  msg_sender :: address
  this :: address                                   \<comment> \<open>\<open>address(this)\<close>\<close>
  factory_feeTo :: address                          \<comment> \<open>\<open>IDiamondFactory(factory).feeTo()\<close>\<close>
  factory_protocolFeeDenominator :: nat
  token_transfer :: "address \<Rightarrow> address \<Rightarrow> nat \<Rightarrow> bool"
    \<comment> \<open>whether \<open>token.transfer(to, value)\<close> succeeds (returns no data or true)\<close>
  token_transferFrom :: "address \<Rightarrow> address \<Rightarrow> address \<Rightarrow> nat \<Rightarrow> bool"
  callee_diamondCall :: "address \<Rightarrow> bool"
    \<comment> \<open>whether the callback on the given address returns\<close>
  balance_reading :: "nat \<Rightarrow> address \<Rightarrow> nat option"
    \<comment> \<open>the \<open>n\<close>-th answer of \<open>IERC20(token).balanceOf(address(this))\<close> within the call;
        \<open>None\<close> when the token reverts\<close>
  create2_address :: "address \<Rightarrow> address \<Rightarrow> address"
    \<comment> \<open>the address \<open>create2\<close> derives from the salt \<open>keccak256(token0, token1)\<close>\<close>
  pair_swap_ok :: "address \<Rightarrow> nat \<Rightarrow> nat \<Rightarrow> address \<Rightarrow> bool"
    \<comment> \<open>whether the router's call \<open>IDiamondPair(pair).swap(..)\<close> returns\<close>
  pair_mint_result :: "address \<Rightarrow> address \<Rightarrow> nat option"
    \<comment> \<open>what the router's call \<open>IDiamondPair(pair).mint(to)\<close> returns\<close>

type_synonym 'a exec = "'a result \<times> ext_call list"

definition ret :: "'a \<Rightarrow> 'a exec" where
  "ret v = (Inr v, [])"

definition lift :: "'a result \<Rightarrow> 'a exec" where
  "lift r = (r, [])"

definition seq :: "'a exec \<Rightarrow> ('a \<Rightarrow> 'b exec) \<Rightarrow> 'b exec" where
  "seq m f =
     (case m of
        (Inl e, t) \<Rightarrow> (Inl e, t)
      | (Inr v, t) \<Rightarrow> (case f v of (r, t') \<Rightarrow> (r, t @ t')))"

definition commit :: "'s \<Rightarrow> 's result \<Rightarrow> 's" where
  "commit s r = (case r of Inl _ \<Rightarrow> s | Inr s' \<Rightarrow> s')"

definition token_balanceOf :: "env \<Rightarrow> nat \<Rightarrow> address \<Rightarrow> nat result" where
  "token_balanceOf e n token =
     (case balance_reading e n token of None \<Rightarrow> Inl CallFailed | Some b \<Rightarrow> Inr b)"

section \<open>The pool: \<open>DiamondPair\<close>\<close>

text \<open>
  A source name that starts with an underscore loses it, and a local variable such as
  \<open>_reserve0\<close> is written \<open>reserve0'\<close>; \<open>_update\<close> is \<open>pair_update\<close>, and the
  ledger's \<open>_mint\<close> and \<open>_burn\<close> are \<open>erc20_mint\<close> and \<open>erc20_burn\<close>.
\<close>

definition MINIMUM_LIQUIDITY :: nat where
  "MINIMUM_LIQUIDITY = 10 ^ 3"

record pair =
  factory :: address
  token0 :: address
  token1 :: address
  reserve0 :: nat
  reserve1 :: nat
  blockTimestampLast :: nat
  price0CumulativeLast :: nat
  price1CumulativeLast :: nat
  kLast :: nat
  totalSupply :: nat
  balanceOf :: "address \<Rightarrow> nat"

text \<open>
  The share ledger. \<open>DiamondPair is ERC20\<close>: \<open>totalSupply\<close>, \<open>balanceOf\<close>, \<open>_mint\<close> and
  \<open>_burn\<close> are inherited from the base contract that \<open>part_001\<close> imports from
  \<open>@openzeppelin/contracts/token/ERC20/ERC20.sol\<close> (the library release that also has
  \<open>security/ReentrancyGuard.sol\<close> and \<open>utils/math/SafeMath.sol\<close>). Its source is not
  part of the repository; the ledger is modelled by what that contract does. \<open>_mint\<close>
  first requires that the receiver is not the null address (\<open>ERC20: mint to the zero
  address\<close>), then raises the total and the receiver's balance; \<open>_burn\<close> requires that
  the holder is not the null address and has the amount, then lowers both.
\<close>

definition erc20_mint :: "pair \<Rightarrow> address \<Rightarrow> nat \<Rightarrow> pair result" where
  "erc20_mint p account amount =
     bind (require (account \<noteq> 0) ''ERC20: mint to the zero address'') (\<lambda>_.
     bind (add (totalSupply p) amount) (\<lambda>supply.
     Inr (p\<lparr>totalSupply := supply,
            balanceOf := (balanceOf p)(account := balanceOf p account + amount)\<rparr>)))"

definition erc20_burn :: "pair \<Rightarrow> address \<Rightarrow> nat \<Rightarrow> pair result" where
  "erc20_burn p account amount =
     bind (require (account \<noteq> 0) ''ERC20: burn from the zero address'') (\<lambda>_.
     bind (require (balanceOf p account \<ge> amount) ''ERC20: burn amount exceeds balance'') (\<lambda>_.
     bind (sub (totalSupply p) amount) (\<lambda>supply.
     Inr (p\<lparr>totalSupply := supply,
            balanceOf := (balanceOf p)(account := balanceOf p account - amount)\<rparr>))))"

definition initialize :: "env \<Rightarrow> pair \<Rightarrow> address \<Rightarrow> address \<Rightarrow> pair result" where
  "initialize e p token0' token1' =
     bind (require (msg_sender e = factory p) ''DiamondPair: FORBIDDEN'') (\<lambda>_.
     Inr (p\<lparr>token0 := token0', token1 := token1'\<rparr>))"

text \<open>\<open>acc += (uint(reserveB) * 1e18 / reserveA) * timeElapsed\<close>\<close>

definition accumulate :: "nat \<Rightarrow> nat \<Rightarrow> nat \<Rightarrow> nat \<Rightarrow> nat result" where
  "accumulate acc reserveB reserveA timeElapsed =
     bind (mul reserveB (10 ^ 18)) (\<lambda>n.
     bind (udiv n reserveA) (\<lambda>q.
     bind (mul q timeElapsed) (\<lambda>d.
     add acc d)))"

text \<open>
  \<open>_update\<close>. The subtraction of the two \<open>uint32\<close> timestamps is checked like every
  other operation of Solidity 0.8.
\<close>

definition pair_update :: "env \<Rightarrow> pair \<Rightarrow> nat \<Rightarrow> nat \<Rightarrow> nat \<Rightarrow> nat \<Rightarrow> pair result" where
  "pair_update e p balance0 balance1 reserve0' reserve1' =
     bind (require (balance0 \<le> MAX_UINT112 \<and> balance1 \<le> MAX_UINT112) ''DiamondPair: OVERFLOW'') (\<lambda>_.
     let blockTimestamp = block_timestamp e mod 2 ^ 32 in
     bind (sub blockTimestamp (blockTimestampLast p)) (\<lambda>timeElapsed.
     bind (if timeElapsed > 0 \<and> reserve0' \<noteq> 0 \<and> reserve1' \<noteq> 0 then
             bind (if reserve0' > 0
                   then accumulate (price0CumulativeLast p) reserve1' reserve0' timeElapsed
                   else Inr (price0CumulativeLast p)) (\<lambda>c0.
             bind (if reserve1' > 0
                   then accumulate (price1CumulativeLast p) reserve0' reserve1' timeElapsed
                   else Inr (price1CumulativeLast p)) (\<lambda>c1.
             Inr (c0, c1)))
           else Inr (price0CumulativeLast p, price1CumulativeLast p)) (\<lambda>(c0, c1).
     Inr (p\<lparr>price0CumulativeLast := c0, price1CumulativeLast := c1,
            reserve0 := balance0, reserve1 := balance1,
            blockTimestampLast := blockTimestamp\<rparr>))))"

text \<open>\<open>_mintFee\<close>: returns the pool (shares minted to the collector, or \<open>kLast\<close> reset) and \<open>feeOn\<close>.\<close>

definition mintFee :: "env \<Rightarrow> pair \<Rightarrow> nat \<Rightarrow> nat \<Rightarrow> (pair \<times> bool) result" where
  "mintFee e p reserve0' reserve1' =
     (let feeTo = factory_feeTo e; feeOn = (feeTo \<noteq> 0); kLast' = kLast p in
      if feeOn then
        (if kLast' \<noteq> 0 then
           bind (mul reserve0' reserve1') (\<lambda>k.
           bind (Math_sqrt k) (\<lambda>rootK.
           bind (Math_sqrt kLast') (\<lambda>rootKLast.
           if rootK > rootKLast then
             bind (sub rootK rootKLast) (\<lambda>diff.
             bind (mul (totalSupply p) diff) (\<lambda>numerator.
             bind (mul rootK (factory_protocolFeeDenominator e)) (\<lambda>m.
             bind (add m rootKLast) (\<lambda>denominator.
             bind (udiv numerator denominator) (\<lambda>liquidity.
             if liquidity > 0
             then bind (erc20_mint p feeTo liquidity) (\<lambda>p'. Inr (p', feeOn))
             else Inr (p, feeOn))))))
           else Inr (p, feeOn))))
         else Inr (p, feeOn))
      else if kLast' \<noteq> 0 then Inr (p\<lparr>kLast := 0\<rparr>, feeOn)
      else Inr (p, feeOn))"

definition refresh_kLast :: "bool \<Rightarrow> pair \<Rightarrow> pair result" where
  \<comment> \<open>\<open>if (feeOn) kLast = uint(reserve0).mul(reserve1);\<close>\<close>
  "refresh_kLast feeOn p =
     (if feeOn then bind (mul (reserve0 p) (reserve1 p)) (\<lambda>k. Inr (p\<lparr>kLast := k\<rparr>))
      else Inr p)"

definition mint :: "env \<Rightarrow> pair \<Rightarrow> address \<Rightarrow> (pair \<times> nat) result" where
  "mint e p to =
     (let reserve0' = reserve0 p; reserve1' = reserve1 p in
      bind (token_balanceOf e 0 (token0 p)) (\<lambda>balance0.
      bind (token_balanceOf e 0 (token1 p)) (\<lambda>balance1.
      bind (sub balance0 reserve0') (\<lambda>amount0.
      bind (sub balance1 reserve1') (\<lambda>amount1.
      bind (mintFee e p reserve0' reserve1') (\<lambda>(p1, feeOn).
      let totalSupply' = totalSupply p1 in
      bind (if totalSupply' = 0 then
              bind (mul amount0 amount1) (\<lambda>product.
              bind (Math_sqrt product) (\<lambda>root.
              bind (sub root MINIMUM_LIQUIDITY) (\<lambda>liquidity.
              bind (erc20_mint p1 0 MINIMUM_LIQUIDITY) (\<lambda>p2.
              Inr (p2, liquidity)))))
            else
              bind (mul amount0 totalSupply') (\<lambda>n0.
              bind (udiv n0 reserve0') (\<lambda>l0.
              bind (mul amount1 totalSupply') (\<lambda>n1.
              bind (udiv n1 reserve1') (\<lambda>l1.
              Inr (p1, Math_min l0 l1)))))) (\<lambda>(p2, liquidity).
      bind (require (liquidity > 0) ''DiamondPair: INSUFFICIENT_LIQUIDITY_MINTED'') (\<lambda>_.
      bind (erc20_mint p2 to liquidity) (\<lambda>p3.
      bind (pair_update e p3 balance0 balance1 reserve0' reserve1') (\<lambda>p4.
      bind (refresh_kLast feeOn p4) (\<lambda>p5.
      Inr (p5, liquidity))))))))))))"

definition safeTransfer :: "env \<Rightarrow> address \<Rightarrow> address \<Rightarrow> nat \<Rightarrow> unit exec" where
  "safeTransfer e token to v =
     (require (token_transfer e token to v) ''DiamondPair: TRANSFER_FAILED'',
      [Transfer token to v])"

definition diamondCall :: "env \<Rightarrow> address \<Rightarrow> address \<Rightarrow> nat \<Rightarrow> nat \<Rightarrow> bytes \<Rightarrow> unit exec" where
  "diamondCall e to sender amount0 amount1 data =
     ((if callee_diamondCall e to then Inr () else Inl CallFailed),
      [DiamondCall to sender amount0 amount1 data])"

definition burn :: "env \<Rightarrow> pair \<Rightarrow> address \<Rightarrow> (pair \<times> nat \<times> nat) exec" where
  "burn e p to =
     (let reserve0' = reserve0 p; reserve1' = reserve1 p;
          token0' = token0 p; token1' = token1 p in
      seq (lift (token_balanceOf e 0 token0')) (\<lambda>balance0.
      seq (lift (token_balanceOf e 0 token1')) (\<lambda>balance1.
      let liquidity = balanceOf p (this e) in
      seq (lift (mintFee e p reserve0' reserve1')) (\<lambda>(p1, feeOn).
      let totalSupply' = totalSupply p1 in
      seq (lift (bind (mul liquidity balance0) (\<lambda>n. udiv n totalSupply'))) (\<lambda>amount0.
      seq (lift (bind (mul liquidity balance1) (\<lambda>n. udiv n totalSupply'))) (\<lambda>amount1.
      seq (lift (require (amount0 > 0 \<and> amount1 > 0) ''DiamondPair: INSUFFICIENT_LIQUIDITY_BURNED'')) (\<lambda>_.
      seq (lift (erc20_burn p1 (this e) liquidity)) (\<lambda>p2.
      seq (safeTransfer e token0' to amount0) (\<lambda>_.
      seq (safeTransfer e token1' to amount1) (\<lambda>_.
      seq (lift (token_balanceOf e 1 token0')) (\<lambda>newBalance0.
      seq (lift (token_balanceOf e 1 token1')) (\<lambda>newBalance1.
      seq (lift (pair_update e p2 newBalance0 newBalance1 reserve0' reserve1')) (\<lambda>p3.
      seq (lift (refresh_kLast feeOn p3)) (\<lambda>p4.
      ret (p4, amount0, amount1)))))))))))))))"

definition input_amount :: "nat \<Rightarrow> nat \<Rightarrow> nat \<Rightarrow> nat result" where
  \<comment> \<open>\<open>balance > _reserve - amountOut ? balance - (_reserve - amountOut) : 0\<close>\<close>
  "input_amount balance reserve amountOut =
     bind (sub reserve amountOut) (\<lambda>rest.
     if balance > rest then sub balance rest else Inr 0)"

definition adjusted :: "nat \<Rightarrow> nat \<Rightarrow> nat result" where
  \<comment> \<open>\<open>balance.mul(1000).sub(amountIn.mul(3))\<close>\<close>
  "adjusted balance amountIn =
     bind (mul balance 1000) (\<lambda>b.
     bind (mul amountIn 3) (\<lambda>fee.
     sub b fee))"

definition check_K :: "nat \<Rightarrow> nat \<Rightarrow> nat \<Rightarrow> nat \<Rightarrow> unit result" where
  \<comment> \<open>\<open>require(balance0Adjusted.mul(balance1Adjusted) >=
        uint(_reserve0).mul(_reserve1).mul(1000**2), 'DiamondPair: K')\<close>\<close>
  "check_K balance0Adjusted balance1Adjusted reserve0' reserve1' =
     bind (mul balance0Adjusted balance1Adjusted) (\<lambda>lhs.
     bind (mul reserve0' reserve1') (\<lambda>k.
     bind (mul k (1000 ^ 2)) (\<lambda>rhs.
     require (lhs \<ge> rhs) ''DiamondPair: K'')))"

definition swap :: "env \<Rightarrow> pair \<Rightarrow> nat \<Rightarrow> nat \<Rightarrow> address \<Rightarrow> bytes \<Rightarrow> pair exec" where
  "swap e p amount0Out amount1Out to data =
     seq (lift (require (amount0Out > 0 \<or> amount1Out > 0)
                  ''DiamondPair: INSUFFICIENT_OUTPUT_AMOUNT'')) (\<lambda>_.
     let reserve0' = reserve0 p; reserve1' = reserve1 p in
     seq (lift (require (amount0Out < reserve0' \<and> amount1Out < reserve1')
                  ''DiamondPair: INSUFFICIENT_LIQUIDITY'')) (\<lambda>_.
     let token0' = token0 p; token1' = token1 p in
     seq (lift (require (to \<noteq> token0' \<and> to \<noteq> token1') ''DiamondPair: INVALID_TO'')) (\<lambda>_.
     seq (if amount0Out > 0 then safeTransfer e token0' to amount0Out else ret ()) (\<lambda>_.
     seq (if amount1Out > 0 then safeTransfer e token1' to amount1Out else ret ()) (\<lambda>_.
     seq (if length data > 0
          then diamondCall e to (msg_sender e) amount0Out amount1Out data
          else ret ()) (\<lambda>_.
     seq (lift (token_balanceOf e 0 token0')) (\<lambda>balance0.
     seq (lift (token_balanceOf e 0 token1')) (\<lambda>balance1.
     seq (lift (input_amount balance0 reserve0' amount0Out)) (\<lambda>amount0In.
     seq (lift (input_amount balance1 reserve1' amount1Out)) (\<lambda>amount1In.
     seq (lift (require (amount0In > 0 \<or> amount1In > 0)
                  ''DiamondPair: INSUFFICIENT_INPUT_AMOUNT'')) (\<lambda>_.
     seq (lift (adjusted balance0 amount0In)) (\<lambda>balance0Adjusted.
     seq (lift (adjusted balance1 amount1In)) (\<lambda>balance1Adjusted.
     seq (lift (check_K balance0Adjusted balance1Adjusted reserve0' reserve1')) (\<lambda>_.
     lift (pair_update e p balance0 balance1 reserve0' reserve1')))))))))))))))"

definition skim :: "env \<Rightarrow> pair \<Rightarrow> address \<Rightarrow> pair exec" where
  "skim e p to =
     (let token0' = token0 p; token1' = token1 p in
      seq (lift (bind (token_balanceOf e 0 token0') (\<lambda>b. sub b (reserve0 p)))) (\<lambda>excess0.
      seq (safeTransfer e token0' to excess0) (\<lambda>_.
      seq (lift (bind (token_balanceOf e 0 token1') (\<lambda>b. sub b (reserve1 p)))) (\<lambda>excess1.
      seq (safeTransfer e token1' to excess1) (\<lambda>_.
      ret p)))))"

definition sync :: "env \<Rightarrow> pair \<Rightarrow> pair result" where
  "sync e p =
     bind (token_balanceOf e 0 (token0 p)) (\<lambda>balance0.
     bind (token_balanceOf e 0 (token1 p)) (\<lambda>balance1.
     pair_update e p balance0 balance1 (reserve0 p) (reserve1 p)))"

text \<open>
  The state-changing operations of a pool, and a history of calls on one pool. Each call
  has its own environment; a call that aborts leaves the pool as it was. \<open>pair_run\<close>
  lists the states the pool goes through, the first one included.
\<close>

datatype pair_op =
    Initialize address address
  | Mint address
  | Burn address
  | Swap nat nat address bytes
  | Skim address
  | Sync

fun pair_step :: "env \<Rightarrow> pair \<Rightarrow> pair_op \<Rightarrow> pair result" where
  "pair_step e p (Initialize t0 t1) = initialize e p t0 t1"
| "pair_step e p (Mint to) = bind (mint e p to) (\<lambda>(p', _). Inr p')"
| "pair_step e p (Burn to) = bind (fst (burn e p to)) (\<lambda>(p', _). Inr p')"
| "pair_step e p (Swap amount0Out amount1Out to data) = fst (swap e p amount0Out amount1Out to data)"
| "pair_step e p (Skim to) = fst (skim e p to)"
| "pair_step e p Sync = sync e p"

fun pair_run :: "pair \<Rightarrow> (env \<times> pair_op) list \<Rightarrow> pair list" where
  "pair_run p [] = [p]"
| "pair_run p ((e, c) # cs) = p # pair_run (commit p (pair_step e p c)) cs"

fun is_swap :: "pair_op \<Rightarrow> bool" where
  "is_swap (Swap _ _ _ _) = True"
| "is_swap _ = False"

section \<open>The registry: \<open>DiamondFactory\<close>\<close>

record factory_state =
  getPair :: "address \<Rightarrow> address \<Rightarrow> address"
  allPairs :: "address list"
  feeTo :: address
  protocolFeeDenominator :: nat

text \<open>
  The registry together with the pools it has deployed: \<open>pairs w a\<close> is the state of the
  \<open>DiamondPair\<close> at address \<open>a\<close>, \<open>None\<close> where no pool is deployed.
\<close>

record world =
  registry :: factory_state
  pairs :: "address \<Rightarrow> pair option"

definition DiamondFactory_initial :: factory_state where
  "DiamondFactory_initial =
     \<lparr>getPair = (\<lambda>_ _. 0), allPairs = [], feeTo = 0, protocolFeeDenominator = 5\<rparr>"

definition DiamondPair_constructor :: "env \<Rightarrow> pair" where
  \<comment> \<open>\<open>constructor() { factory = msg.sender; }\<close>, every other variable at its default\<close>
  "DiamondPair_constructor e =
     \<lparr>factory = msg_sender e, token0 = 0, token1 = 0, reserve0 = 0, reserve1 = 0,
      blockTimestampLast = 0, price0CumulativeLast = 0, price1CumulativeLast = 0, kLast = 0,
      totalSupply = 0, balanceOf = (\<lambda>_. 0)\<rparr>"

definition create2 :: "env \<Rightarrow> world \<Rightarrow> address \<Rightarrow> address \<Rightarrow> address" where
  \<comment> \<open>\<open>create2\<close> yields 0 when the derived address already holds a contract\<close>
  "create2 e w t0 t1 =
     (let a = create2_address e t0 t1 in if pairs w a \<noteq> None then 0 else a)"

definition createPair :: "env \<Rightarrow> world \<Rightarrow> address \<Rightarrow> address \<Rightarrow> (world \<times> address) result" where
  "createPair e w tokenA tokenB =
     bind (require (tokenA \<noteq> tokenB) ''DiamondFactory: IDENTICAL_ADDRESSES'') (\<lambda>_.
     let (token0', token1') = (if tokenA < tokenB then (tokenA, tokenB) else (tokenB, tokenA)) in
     bind (require (token0' \<noteq> 0) ''DiamondFactory: ZERO_ADDRESS'') (\<lambda>_.
     bind (require (getPair (registry w) token0' token1' = 0) ''DiamondFactory: PAIR_EXISTS'') (\<lambda>_.
     let pair = create2 e w token0' token1';
         inner = e\<lparr>msg_sender := this e, this := pair\<rparr> in
     bind (if pair = 0 then Inl CallFailed
           else initialize inner (DiamondPair_constructor inner) token0' token1') (\<lambda>p.
     let g = getPair (registry w);
         g1 = g(token0' := (g token0')(token1' := pair));
         g2 = g1(token1' := (g1 token1')(token0' := pair)) in
     Inr (w\<lparr>registry := (registry w)\<lparr>getPair := g2, allPairs := allPairs (registry w) @ [pair]\<rparr>,
             pairs := (pairs w)(pair \<mapsto> p)\<rparr>,
          pair)))))"

text \<open>
  What holds of the registry in every state it can reach: the lookup is symmetric, nothing
  is registered for a token with itself or for the null identifier, and the listed pools
  are deployed. It holds initially and \<open>createPair\<close> keeps it (lemmas
  \<open>registry_ok_initial\<close> and \<open>createPair_registry_ok\<close>).
\<close>

definition registry_ok :: "world \<Rightarrow> bool" where
  "registry_ok w =
     ((\<forall>a b. getPair (registry w) a b = getPair (registry w) b a) \<and>
      (\<forall>a. getPair (registry w) a a = 0) \<and>
      (\<forall>b. getPair (registry w) 0 b = 0) \<and>
      (\<forall>a \<in> set (allPairs (registry w)). pairs w a \<noteq> None))"

section \<open>The router: \<open>DiamondRouter\<close>\<close>

text \<open>
  The router is written against the interfaces \<open>IDiamondFactory\<close> and \<open>IDiamondPair\<close>.
  What it reads (\<open>getPair\<close>, \<open>getReserves\<close>) comes from the registry and the pools of
  the \<open>world\<close>, and \<open>createPair\<close> is the registry's; its calls that change a pool
  (\<open>mint\<close>, \<open>swap\<close>) and its token transfers are external calls, recorded in the trace,
  whose outcome the environment gives. Events are not modelled.
\<close>

record router =
  router_factory :: address
  WETH :: address

definition sortTokens :: "address \<Rightarrow> address \<Rightarrow> (address \<times> address) result" where
  "sortTokens tokenA tokenB =
     bind (require (tokenA \<noteq> tokenB) ''DiamondRouter: IDENTICAL_ADDRESSES'') (\<lambda>_.
     let (token0', token1') = (if tokenA < tokenB then (tokenA, tokenB) else (tokenB, tokenA)) in
     bind (require (token0' \<noteq> 0) ''DiamondRouter: ZERO_ADDRESS'') (\<lambda>_.
     Inr (token0', token1')))"

definition pairFor :: "world \<Rightarrow> address \<Rightarrow> address \<Rightarrow> address" where
  "pairFor w tokenA tokenB = getPair (registry w) tokenA tokenB"

definition getReserves :: "world \<Rightarrow> address \<Rightarrow> address \<Rightarrow> (nat \<times> nat) result" where
  "getReserves w tokenA tokenB =
     bind (sortTokens tokenA tokenB) (\<lambda>(token0', _).
     let pair = pairFor w tokenA tokenB in
     if pair = 0 then Inr (0, 0)
     else (case pairs w pair of
             None \<Rightarrow> Inl CallFailed
           | Some p \<Rightarrow>
               Inr (if tokenA = token0' then (reserve0 p, reserve1 p)
                    else (reserve1 p, reserve0 p))))"

definition calculateLiquidityAmounts ::
  "world \<Rightarrow> address \<Rightarrow> address \<Rightarrow> nat \<Rightarrow> nat \<Rightarrow> nat \<Rightarrow> nat \<Rightarrow> (nat \<times> nat) result" where
  "calculateLiquidityAmounts w tokenA tokenB amountADesired amountBDesired amountAMin amountBMin =
     (let pair = pairFor w tokenA tokenB in
      if pair = 0 then Inr (amountADesired, amountBDesired)
      else
        bind (getReserves w tokenA tokenB) (\<lambda>(reserveA, reserveB).
        if reserveA = 0 \<and> reserveB = 0 then Inr (amountADesired, amountBDesired)
        else
          bind (quote amountADesired reserveA reserveB) (\<lambda>amountBOptimal.
          if amountBOptimal \<le> amountBDesired then
            bind (require (amountBOptimal \<ge> amountBMin) ''DiamondRouter: INSUFFICIENT_B_AMOUNT'') (\<lambda>_.
            Inr (amountADesired, amountBOptimal))
          else
            bind (quote amountBDesired reserveB reserveA) (\<lambda>amountAOptimal.
            bind (if amountAOptimal \<le> amountADesired then Inr () else Inl AssertFailed) (\<lambda>_.
            bind (require (amountAOptimal \<ge> amountAMin) ''DiamondRouter: INSUFFICIENT_A_AMOUNT'') (\<lambda>_.
            Inr (amountAOptimal, amountBDesired)))))))"

definition safeTransferFrom :: "env \<Rightarrow> address \<Rightarrow> address \<Rightarrow> address \<Rightarrow> nat \<Rightarrow> unit exec" where
  "safeTransferFrom e token from to v =
     (require (token_transferFrom e token from to v) ''DiamondRouter: TRANSFER_FAILED'',
      [TransferFrom token from to v])"

definition pair_mint :: "env \<Rightarrow> address \<Rightarrow> address \<Rightarrow> nat exec" where
  \<comment> \<open>the external call \<open>IDiamondPair(pair).mint(to)\<close>\<close>
  "pair_mint e pair to =
     ((case pair_mint_result e pair to of None \<Rightarrow> Inl CallFailed | Some liquidity \<Rightarrow> Inr liquidity),
      [PairMint pair to])"

definition pair_swap :: "env \<Rightarrow> address \<Rightarrow> nat \<Rightarrow> nat \<Rightarrow> address \<Rightarrow> bytes \<Rightarrow> unit exec" where
  \<comment> \<open>the external call \<open>IDiamondPair(pair).swap(amount0Out, amount1Out, to, data)\<close>\<close>
  "pair_swap e pair amount0Out amount1Out to data =
     ((if pair_swap_ok e pair amount0Out amount1Out to then Inr () else Inl CallFailed),
      [PairSwap pair amount0Out amount1Out to data])"

definition addLiquidity ::
  "router \<Rightarrow> env \<Rightarrow> world \<Rightarrow> address \<Rightarrow> address \<Rightarrow> nat \<Rightarrow> nat \<Rightarrow> nat \<Rightarrow> nat \<Rightarrow> address
     \<Rightarrow> ((nat \<times> nat \<times> nat) \<times> world) exec" where
  "addLiquidity rt e w tokenA tokenB amountADesired amountBDesired amountAMin amountBMin to =
     seq (if pairFor w tokenA tokenB = 0
          then lift (createPair (e\<lparr>msg_sender := this e, this := router_factory rt\<rparr>) w tokenA tokenB)
          else ret (w, pairFor w tokenA tokenB)) (\<lambda>(w', pair).
     seq (lift (calculateLiquidityAmounts w' tokenA tokenB
                  amountADesired amountBDesired amountAMin amountBMin)) (\<lambda>(amountA, amountB).
     seq (safeTransferFrom e tokenA (msg_sender e) pair amountA) (\<lambda>_.
     seq (safeTransferFrom e tokenB (msg_sender e) pair amountB) (\<lambda>_.
     seq (pair_mint e pair to) (\<lambda>liquidity.
     ret ((amountA, amountB, liquidity), w'))))))"

text \<open>
  The part of \<open>addLiquidity\<close> that follows the choice of the amounts: the two transfers
  into the pool and the mint.
\<close>

abbreviation deposit ::
  "env \<Rightarrow> world \<Rightarrow> address \<Rightarrow> address \<Rightarrow> address \<Rightarrow> nat \<Rightarrow> nat \<Rightarrow> address
     \<Rightarrow> ((nat \<times> nat \<times> nat) \<times> world) exec" where
  "deposit e w pair tokenA tokenB amountA amountB to \<equiv>
     seq (safeTransferFrom e tokenA (msg_sender e) pair amountA) (\<lambda>_.
     seq (safeTransferFrom e tokenB (msg_sender e) pair amountB) (\<lambda>_.
     seq (pair_mint e pair to) (\<lambda>liquidity.
     ret ((amountA, amountB, liquidity), w))))"

text \<open>
  The loop of \<open>getAmountsOut\<close>, on the rest of the path: \<open>amount\<close> is \<open>amounts[i]\<close> and
  the result lists \<open>amounts[i..]\<close>.
\<close>

fun amounts_out :: "world \<Rightarrow> nat \<Rightarrow> address list \<Rightarrow> nat list result" where
  "amounts_out w amount (input # output # rest) =
     bind (getReserves w input output) (\<lambda>(reserveIn, reserveOut).
     bind (getAmountOut amount reserveIn reserveOut) (\<lambda>next.
     bind (amounts_out w next (output # rest)) (\<lambda>following.
     Inr (amount # following))))"
| "amounts_out w amount _ = Inr [amount]"

definition getAmountsOut :: "world \<Rightarrow> nat \<Rightarrow> address list \<Rightarrow> nat list result" where
  "getAmountsOut w amountIn path =
     bind (require (length path \<ge> 2) ''DiamondRouter: INVALID_PATH'') (\<lambda>_.
     amounts_out w amountIn path)"

text \<open>
  The loop of \<open>_swap\<close>: \<open>i\<close> is the loop index and the list is \<open>path[i..]\<close>. An index
  outside \<open>amounts\<close> aborts the call, as an array access does.
\<close>

definition at_index :: "nat list \<Rightarrow> nat \<Rightarrow> nat result" where
  "at_index xs i = (if i < length xs then Inr (xs ! i) else Inl IndexOutOfBounds)"

fun swap_hops :: "env \<Rightarrow> world \<Rightarrow> nat list \<Rightarrow> nat \<Rightarrow> address list \<Rightarrow> address \<Rightarrow> unit exec" where
  "swap_hops e w amounts i (input # output # rest) to' =
     seq (lift (sortTokens input output)) (\<lambda>(token0', _).
     seq (lift (at_index amounts (i + 1))) (\<lambda>amountOut.
     let (amount0Out, amount1Out) = (if input = token0' then (0, amountOut) else (amountOut, 0));
         to = (case rest of [] \<Rightarrow> to' | next # _ \<Rightarrow> pairFor w output next) in
     seq (pair_swap e (pairFor w input output) amount0Out amount1Out to []) (\<lambda>_.
     swap_hops e w amounts (i + 1) (output # rest) to')))"
| "swap_hops e w amounts i _ to' = ret ()"

definition swapExactTokensForTokens ::
  "env \<Rightarrow> world \<Rightarrow> nat \<Rightarrow> nat \<Rightarrow> address list \<Rightarrow> address \<Rightarrow> nat list exec" where
  "swapExactTokensForTokens e w amountIn amountOutMin path to =
     seq (lift (getAmountsOut w amountIn path)) (\<lambda>amounts.
     seq (lift (require (last amounts \<ge> amountOutMin)
                  ''DiamondRouter: INSUFFICIENT_OUTPUT_AMOUNT'')) (\<lambda>_.
     seq (safeTransferFrom e (path ! 0) (msg_sender e) (pairFor w (path ! 0) (path ! 1))
            (amounts ! 0)) (\<lambda>_.
     seq (swap_hops e w amounts 0 path to) (\<lambda>_.
     ret amounts))))"

definition expired :: "env \<Rightarrow> nat \<Rightarrow> bool" where
  \<comment> \<open>the current time exceeds the deadline\<close>
  "expired e deadline = (deadline < block_timestamp e)"

section \<open>Example states\<close>

text \<open>
  A pool of tokens 11 and 12 with reserves 1000 and 1000 (as \<open>sync\<close> records them; it
  has no shares), a freshly created pool of the same tokens, an environment in which every external call succeeds and the pool's balances read
  1100 and 910, a registry that holds this pool at address 50, and a router.
\<close>

definition example_env :: env where
  "example_env =
     \<lparr>block_timestamp = 1700000000, msg_sender = 9, this = 50,
      factory_feeTo = 0, factory_protocolFeeDenominator = 5,
      token_transfer = (\<lambda>_ _ _. True),
      token_transferFrom = (\<lambda>_ _ _ _. True),
      callee_diamondCall = (\<lambda>_. True),
      balance_reading = (\<lambda>n token. if token = 11 then Some 1100 else if token = 12 then Some 910 else None),
      create2_address = (\<lambda>t0 t1. 100 + t0 + t1),
      pair_swap_ok = (\<lambda>_ _ _ _. True),
      pair_mint_result = (\<lambda>_ _. Some 1000)\<rparr>"

definition example_pair :: pair where
  "example_pair =
     \<lparr>factory = 40, token0 = 11, token1 = 12, reserve0 = 1000, reserve1 = 1000,
      blockTimestampLast = 1699999000, price0CumulativeLast = 0, price1CumulativeLast = 0,
      kLast = 0, totalSupply = 0, balanceOf = (\<lambda>_. 0)\<rparr>"

definition example_empty_pair :: pair where
  "example_empty_pair = (DiamondPair_constructor example_env)\<lparr>token0 := 11, token1 := 12\<rparr>"

definition example_mint_env :: env where
  \<comment> \<open>the same environment, with balances 4000 and 9000\<close>
  "example_mint_env =
     example_env\<lparr>balance_reading :=
       (\<lambda>n token. if token = 11 then Some 4000 else if token = 12 then Some 9000 else None)\<rparr>"

definition initial_world :: world where
  \<comment> \<open>a freshly deployed registry, no pool yet\<close>
  "initial_world = \<lparr>registry = DiamondFactory_initial, pairs = (\<lambda>_. None)\<rparr>"

definition example_world :: world where
  "example_world =
     \<lparr>registry = \<lparr>getPair = (\<lambda>a b. if (a = 11 \<and> b = 12) \<or> (a = 12 \<and> b = 11) then 50 else 0),
                  allPairs = [50], feeTo = 0, protocolFeeDenominator = 5\<rparr>,
      pairs = (\<lambda>_. None)(50 \<mapsto> example_pair)\<rparr>"

definition example_router :: router where
  "example_router = \<lparr>router_factory = 40, WETH = 3\<rparr>"

section \<open>Results and checked arithmetic\<close>

lemma bind_Inr: "bind m f = Inr v \<longleftrightarrow> (\<exists>x. m = Inr x \<and> f x = Inr v)"
  by (cases m) (simp_all add: bind_def)

lemma require_Inr: "require c s = Inr u \<longleftrightarrow> c"
  by (simp add: require_def)

lemma fst_lift: "fst (lift r) = r"
  by (simp add: lift_def)

lemma fst_ret: "fst (ret v) = Inr v"
  by (simp add: ret_def)

lemma fst_seq_Inr: "fst (seq m f) = Inr v \<longleftrightarrow> (\<exists>x. fst m = Inr x \<and> fst (f x) = Inr v)"
  by (cases m; cases "fst m") (auto simp: seq_def split: prod.splits)

lemma seq_lift_Inr: "seq (lift (Inr v)) f = f v"
  by (simp add: seq_def lift_def split: prod.splits)

lemma seq_lift_Inl: "seq (lift (Inl err)) f = (Inl err, [])"
  by (simp add: seq_def lift_def)

lemma sub_Inr: "sub a b = Inr c \<longleftrightarrow> b \<le> a \<and> c = a - b"
  by (auto simp: sub_def)

lemma mul_Inr: "mul a b = Inr c \<longleftrightarrow> a * b \<le> MAX_UINT256 \<and> c = a * b"
  by (auto simp: mul_def)

lemma add_Inr: "add a b = Inr c \<longleftrightarrow> a + b \<le> MAX_UINT256 \<and> c = a + b"
  by (auto simp: add_def)

lemma udiv_Inr: "udiv a b = Inr c \<longleftrightarrow> b \<noteq> 0 \<and> c = a div b"
  by (auto simp: udiv_def)


section \<open>\<open>Math.sqrt\<close>\<close>

lemma newton_step_upper:
  fixes x y :: nat
  assumes "0 < x"
  shows "y < ((y div x + x) div 2 + 1) * ((y div x + x) div 2 + 1)"
proof -
  define q where "q = y div x"
  define m where "m = (q + x) div 2"
  have y_lt: "y < (q + 1) * x"
    using assms unfolding q_def
    by (metis Suc_eq_plus1 dividend_less_div_times mult.commute mult_Suc_right add.commute)
  have m2: "q + x + 1 \<le> 2 * (m + 1)"
    unfolding m_def by presburger
  have amgm: "4 * ((q + 1) * x) \<le> (q + 1 + x) * (q + 1 + x)"
  proof -
    have "int (4 * ((q + 1) * x)) \<le> int ((q + 1 + x) * (q + 1 + x))"
    proof -
      have "0 \<le> (int (q + 1) - int x) * (int (q + 1) - int x)" by simp
      then show ?thesis by (simp add: algebra_simps)
    qed
    then show ?thesis by linarith
  qed
  have m2': "q + 1 + x \<le> 2 * (m + 1)" using m2 by simp
  have "(q + 1 + x) * (q + 1 + x) \<le> (2 * (m + 1)) * (2 * (m + 1))"
    by (rule mult_le_mono [OF m2' m2'])
  then have "4 * ((q + 1) * x) \<le> 4 * ((m + 1) * (m + 1))"
    using amgm by (simp add: algebra_simps)
  then have "(q + 1) * x \<le> (m + 1) * (m + 1)" by simp
  with y_lt show ?thesis unfolding m_def q_def by simp
qed

lemma MAX_UINT256_odd: "odd MAX_UINT256"
  by (simp add: MAX_UINT256_def)

lemma sqrt_loop_correct:
  assumes "3 < y" "y \<le> MAX_UINT256"
    and "0 < z" "z \<le> y" "x \<le> y div 2 + 1"
    and "y < (z + 1) * (z + 1)" "y < (x + 1) * (x + 1)"
    and "z \<le> x \<longrightarrow> z * z \<le> y"
  shows "\<exists>r. sqrt_loop y z x = Inr r \<and> r * r \<le> y \<and> y < (r + 1) * (r + 1)"
  using assms
proof (induction y z x rule: sqrt_loop.induct)
  case (1 y z x)
  show ?case
  proof (cases "x < z")
    case False
    then have "sqrt_loop y z x = Inr z" by simp
    with False "1.prems" show ?thesis by simp
  next
    case True
    have x2: "2 \<le> x"
    proof (rule ccontr)
      assume "\<not> 2 \<le> x"
      then have "x + 1 \<le> 2" by simp
      then have "(x + 1) * (x + 1) \<le> 2 * 2" by (intro mult_le_mono)
      with "1.prems" show False by simp
    qed
    have q_le: "y div x \<le> y div 2" using x2 by (simp add: div_le_mono2)
    have half: "y div 2 + (y div 2 + 1) \<le> MAX_UINT256"
    proof -
      obtain k where k: "MAX_UINT256 = 2 * k + 1"
        using MAX_UINT256_odd by (auto elim: oddE)
      with "1.prems"(2) have "y div 2 \<le> k" by linarith
      with k show ?thesis by linarith
    qed
    have sum_le: "y div x + x \<le> MAX_UINT256" using q_le "1.prems"(5) half by linarith
    let ?x' = "(y div x + x) div 2"
    have unfold: "sqrt_loop y z x = sqrt_loop y x ?x'"
      using True x2 sum_le by simp
    have a: "x \<le> y" using True "1.prems" by simp
    have b: "?x' \<le> y div 2 + 1" using q_le "1.prems"(5) by linarith
    have c: "y < (?x' + 1) * (?x' + 1)" using newton_step_upper [of x y] x2 by simp
    have d: "x \<le> ?x' \<longrightarrow> x * x \<le> y"
    proof
      assume "x \<le> ?x'"
      then have "x \<le> y div x" by linarith
      then have "x * x \<le> (y div x) * x" by simp
      also have "\<dots> \<le> y" by simp
      finally show "x * x \<le> y" .
    qed
    have "\<exists>r. sqrt_loop y x ?x' = Inr r \<and> r * r \<le> y \<and> y < (r + 1) * (r + 1)"
      using "1.IH" [OF True _ _ "1.prems"(1,2) _ a b "1.prems"(7) c d] x2 sum_le by simp
    with unfold show ?thesis by simp
  qed
qed

lemma Math_sqrt_correct:
  assumes le: "y \<le> MAX_UINT256"
  shows "\<exists>z. Math_sqrt y = Inr z \<and> z * z \<le> y \<and> y < (z + 1) * (z + 1)"
proof (cases "3 < y")
  case False
  then consider "y = 0" | "y = 1" | "y = 2" | "y = 3" by linarith
  then show ?thesis by cases (simp_all add: Math_sqrt_def)
next
  case True
  have x0: "add (y div 2) 1 = Inr (y div 2 + 1)"
    using le True by (simp add: add_def) 
  have up: "y < (y div 2 + 1 + 1) * (y div 2 + 1 + 1)"
  proof -
    have "y \<le> 2 * (y div 2 + 1)" by presburger
    also have "\<dots> < (y div 2 + 2) * (y div 2 + 2)" by (simp add: algebra_simps)
    finally show ?thesis by simp
  qed
  have lt: "\<not> y \<le> y div 2 + 1" using True by linarith
  have "\<exists>r. sqrt_loop y y (y div 2 + 1) = Inr r \<and> r * r \<le> y \<and> y < (r + 1) * (r + 1)"
    by (rule sqrt_loop_correct) (use True le up lt in \<open>simp_all add: power2_eq_square\<close>)
  with True x0 show ?thesis by (simp add: Math_sqrt_def bind_def)
qed

lemma Math_sqrt_Inr:
  assumes "Math_sqrt y = Inr z" "y \<le> MAX_UINT256"
  shows "z * z \<le> y \<and> y < (z + 1) * (z + 1)"
  using Math_sqrt_correct [OF assms(2)] assms(1) by auto

text \<open>
  C10. For every \<open>y\<close> of the argument type (a 256-bit unsigned integer), the Newton
  iteration of \<open>Math.sqrt\<close> terminates (\<open>sqrt_loop\<close> is a total function), aborts neither
  on a division by zero nor on an overflow, and returns the integer square root: the
  \<open>z\<close> with \<open>z * z \<le> y < (z + 1) * (z + 1)\<close>.
\<close>

theorem Math_sqrt_floor:
  "y \<le> MAX_UINT256 \<longrightarrow>
     (\<exists>z. Math_sqrt y = Inr z \<and> z * z \<le> y \<and> y < (z + 1) * (z + 1))"
  using Math_sqrt_correct by blast

theorem Math_sqrt_floor_witness:
  "(17::nat) \<le> MAX_UINT256 \<and> Math_sqrt 17 = Inr 4"
proof -
  have le: "(17::nat) \<le> MAX_UINT256" by (simp add: MAX_UINT256_def)
  with Math_sqrt_floor [of 17] obtain z where
    z: "Math_sqrt 17 = Inr z" "z * z \<le> 17" "17 < (z + 1) * (z + 1)" by blast
  have "z < 5"
  proof (rule ccontr)
    assume "\<not> z < 5"
    then have "5 * 5 \<le> z * z" by (intro mult_le_mono) simp_all
    with z(2) show False by simp
  qed
  moreover have "3 < z"
  proof (rule ccontr)
    assume "\<not> 3 < z"
    then have "(z + 1) * (z + 1) \<le> 4 * 4" by (intro mult_le_mono) simp_all
    with z(3) show False by simp
  qed
  ultimately have "z = 4" by simp
  with z(1) le show ?thesis by simp
qed

section \<open>The quoting functions\<close>

lemma getAmountOut_cases:
  "getAmountOut amountIn reserveIn reserveOut =
     (if amountIn = 0 then Inl (Revert ''DiamondRouter: INSUFFICIENT_INPUT_AMOUNT'')
      else if reserveIn = 0 \<or> reserveOut = 0 then Inl (Revert ''DiamondRouter: INSUFFICIENT_LIQUIDITY'')
      else if amountIn * 997 * reserveOut \<le> MAX_UINT256 \<and> reserveIn * 1000 + amountIn * 997 \<le> MAX_UINT256
      then Inr ((amountIn * 997 * reserveOut) div (reserveIn * 1000 + amountIn * 997))
      else Inl Overflow)"
proof -
  have le1: "amountIn * 997 \<le> amountIn * 997 * reserveOut" if "0 < reserveOut"
    using that by simp
  have le2: "reserveIn * 1000 \<le> reserveIn * 1000 + amountIn * 997" by simp
  show ?thesis
    using le1 le2
    by (auto simp: getAmountOut_def bind_def require_def mul_def add_def udiv_def)
qed

lemma getAmountIn_cases:
  "getAmountIn amountOut reserveIn reserveOut =
     (if amountOut = 0 then Inl (Revert ''DiamondRouter: INSUFFICIENT_OUTPUT_AMOUNT'')
      else if reserveIn = 0 \<or> reserveOut = 0 then Inl (Revert ''DiamondRouter: INSUFFICIENT_LIQUIDITY'')
      else if \<not> reserveIn * amountOut * 1000 \<le> MAX_UINT256 then Inl Overflow
      else if reserveOut < amountOut then Inl Overflow
      else if \<not> (reserveOut - amountOut) * 997 \<le> MAX_UINT256 then Inl Overflow
      else if reserveOut = amountOut then Inl DivisionByZero
      else if \<not> (reserveIn * amountOut * 1000) div ((reserveOut - amountOut) * 997) + 1 \<le> MAX_UINT256 then Inl Overflow
      else Inr ((reserveIn * amountOut * 1000) div ((reserveOut - amountOut) * 997) + 1))"
proof -
  have le1: "reserveIn * amountOut \<le> reserveIn * amountOut * 1000" by simp
  show ?thesis
    using le1
    by (auto simp: getAmountIn_def bind_def require_def mul_def add_def sub_def udiv_def)
qed

lemma round_trip_arith:
  fixes out rIn rOut :: nat
  assumes "out < rOut"
  defines "a \<equiv> (rIn * out * 1000) div ((rOut - out) * 997) + 1"
  shows "out \<le> (a * 997 * rOut) div (rIn * 1000 + a * 997)"
proof -
  define d where "d = rOut - out"
  have d: "0 < d" "rOut = d + out" using assms by (simp_all add: d_def)
  have "rIn * out * 1000 < a * (d * 997)"
    unfolding a_def d_def [symmetric]
    using d(1) dividend_less_div_times [of "d * 997" "rIn * out * 1000"]
    by (simp add: algebra_simps)
  then have "out * (rIn * 1000 + a * 997) \<le> a * 997 * rOut"
    unfolding d(2) by (simp add: algebra_simps)
  moreover have "0 < rIn * 1000 + a * 997" by (simp add: a_def)
  ultimately show ?thesis
    by (simp add: less_eq_div_iff_mult_less_eq)
qed

text \<open>
  C5 (as amended). \<open>getAmountOut\<close> fails with INSUFFICIENT_INPUT_AMOUNT when
  \<open>amountIn = 0\<close>, with INSUFFICIENT_LIQUIDITY when \<open>amountIn > 0\<close> and a reserve is 0;
  with all three positive it returns
  \<open>floor((amountIn * 997) * reserveOut / (reserveIn * 1000 + amountIn * 997))\<close> provided the
  numerator and the denominator fit into 256 bits, and aborts on the arithmetic overflow
  otherwise.
\<close>

theorem getAmountOut_formula:
  "getAmountOut amountIn reserveIn reserveOut =
     (if amountIn = 0 then Inl (Revert ''DiamondRouter: INSUFFICIENT_INPUT_AMOUNT'')
      else if reserveIn = 0 \<or> reserveOut = 0 then Inl (Revert ''DiamondRouter: INSUFFICIENT_LIQUIDITY'')
      else if amountIn * 997 * reserveOut \<le> MAX_UINT256 \<and> reserveIn * 1000 + amountIn * 997 \<le> MAX_UINT256
      then Inr ((amountIn * 997 * reserveOut) div (reserveIn * 1000 + amountIn * 997))
      else Inl Overflow)"
  by (rule getAmountOut_cases)

theorem getAmountOut_formula_witness:
  "getAmountOut 100 1000 1000 = Inr 90"
  using getAmountOut_formula [of 100 1000 1000] by (simp add: MAX_UINT256_def)

text \<open>
  C5 as stated fails: with all three arguments positive, \<open>getAmountOut(2^255, 1, 1)\<close>
  does not return the quotient but aborts, since \<open>amountIn * 997\<close> leaves the 256 bits.
\<close>

theorem getAmountOut_counterexample:
  "(0::nat) < 2 ^ 255 \<and> getAmountOut (2 ^ 255) 1 1 = Inl Overflow"
  by (simp add: getAmountOut_cases MAX_UINT256_def)

text \<open>
  C3 (as amended). For positive \<open>amountOut\<close>, \<open>reserveIn\<close>, \<open>reserveOut\<close> with
  \<open>amountOut < reserveOut\<close>, each of the two quotes either returns or aborts on an
  arithmetic overflow, and when both return,
  \<open>getAmountOut(getAmountIn(amountOut, reserveIn, reserveOut), reserveIn, reserveOut) \<ge> amountOut\<close>.
\<close>

theorem getAmountIn_getAmountOut_round_trip:
  assumes "0 < amountOut" "0 < reserveIn" "amountOut < reserveOut"
  shows "case getAmountIn amountOut reserveIn reserveOut of
           Inl e \<Rightarrow> e = Overflow
         | Inr amountIn \<Rightarrow>
             (case getAmountOut amountIn reserveIn reserveOut of
                Inl e \<Rightarrow> e = Overflow
              | Inr amountOut' \<Rightarrow> amountOut \<le> amountOut')"
  using assms round_trip_arith [of amountOut reserveOut reserveIn]
  by (simp add: getAmountIn_cases getAmountOut_cases)

theorem getAmountIn_getAmountOut_round_trip_witness:
  "getAmountIn 100 1000 2000 = Inr 53 \<and> getAmountOut 53 1000 2000 = Inr 100"
  using getAmountIn_getAmountOut_round_trip [of 100 1000 2000]
  by (simp add: getAmountIn_cases getAmountOut_cases MAX_UINT256_def)

text \<open>
  C3 as stated fails: \<open>amountOut < reserveOut\<close> does not make both calls succeed. With
  reserves \<open>2^100\<close> and \<open>amountOut = 2^100 - 1\<close>, \<open>getAmountIn\<close> returns and
  \<open>getAmountOut\<close> of its result aborts on an overflow.
\<close>

theorem getAmountIn_getAmountOut_counterexample:
  "(0::nat) < 2 ^ 100 - 1 \<and> (2 ^ 100 - 1 :: nat) < 2 ^ 100 \<and>
   getAmountIn (2 ^ 100 - 1) (2 ^ 100) (2 ^ 100)
     = Inr 1611773364352046414786321055506414194505491238095582880738215 \<and>
   getAmountOut 1611773364352046414786321055506414194505491238095582880738215 (2 ^ 100) (2 ^ 100)
     = Inl Overflow"
  by (simp add: getAmountIn_cases getAmountOut_cases MAX_UINT256_def)

section \<open>The pool: \<open>swap\<close>\<close>

lemma require_True: "c \<Longrightarrow> require c s = Inr ()"
  by (simp add: require_def)

lemma require_False: "\<not> c \<Longrightarrow> require c s = Inl (Revert s)"
  by (simp add: require_def)

lemma swap_no_output:
  assumes "amount0Out = 0" "amount1Out = 0"
  shows "swap e p amount0Out amount1Out to data =
     (Inl (Revert ''DiamondPair: INSUFFICIENT_OUTPUT_AMOUNT''), [])"
proof -
  have "\<not> (amount0Out > 0 \<or> amount1Out > 0)" using assms by simp
  note r1 = require_False [OF this]
  show ?thesis unfolding swap_def r1 seq_lift_Inl ..
qed

lemma swap_no_liquidity:
  assumes "amount0Out > 0 \<or> amount1Out > 0"
    and "\<not> (amount0Out < reserve0 p \<and> amount1Out < reserve1 p)"
  shows "swap e p amount0Out amount1Out to data =
     (Inl (Revert ''DiamondPair: INSUFFICIENT_LIQUIDITY''), [])"
proof -
  note r1 = require_True [OF assms(1)]
  note r2 = require_False [OF assms(2)]
  show ?thesis unfolding swap_def Let_def r1 r2 seq_lift_Inr seq_lift_Inl ..
qed

lemma swap_invalid_to:
  assumes "amount0Out > 0 \<or> amount1Out > 0"
    and "amount0Out < reserve0 p \<and> amount1Out < reserve1 p"
    and "to = token0 p \<or> to = token1 p"
  shows "swap e p amount0Out amount1Out to data = (Inl (Revert ''DiamondPair: INVALID_TO''), [])"
proof -
  note r1 = require_True [OF assms(1)]
  note r2 = require_True [OF assms(2)]
  have "\<not> (to \<noteq> token0 p \<and> to \<noteq> token1 p)" using assms(3) by simp
  note r3 = require_False [OF this]
  show ?thesis unfolding swap_def Let_def r1 r2 r3 seq_lift_Inr seq_lift_Inl ..
qed

lemma pair_update_Inr:
  assumes "pair_update e p balance0 balance1 r0 r1 = Inr p'"
  shows "reserve0 p' = balance0" "reserve1 p' = balance1"
    "balanceOf p' = balanceOf p" "totalSupply p' = totalSupply p"
    "token0 p' = token0 p" "token1 p' = token1 p" "factory p' = factory p" "kLast p' = kLast p"
    "balance0 \<le> MAX_UINT112" "balance1 \<le> MAX_UINT112"
  using assms
  by (auto simp: pair_update_def bind_Inr require_Inr Let_def split: if_splits)

lemma adjusted_Inr:
  "adjusted balance amountIn = Inr v \<longleftrightarrow>
     balance * 1000 \<le> MAX_UINT256 \<and> amountIn * 3 \<le> balance * 1000 \<and> v = balance * 1000 - amountIn * 3"
proof -
  have "amountIn * 3 \<le> MAX_UINT256" if "amountIn * 3 \<le> balance * 1000" "balance * 1000 \<le> MAX_UINT256"
    using that by linarith
  then show ?thesis
    by (auto simp: adjusted_def bind_Inr mul_Inr sub_Inr)
qed

lemma check_K_Inr:
  "check_K a0 a1 r0 r1 = Inr u \<Longrightarrow> r0 * r1 * 1000 ^ 2 \<le> a0 * a1"
  by (auto simp: check_K_def bind_Inr mul_Inr require_Inr)

lemma swap_Inr:
  assumes "fst (swap e p amount0Out amount1Out to data) = Inr p'"
  shows "\<exists>balance0 balance1 amount0In amount1In.
           token_balanceOf e 0 (token0 p) = Inr balance0 \<and>
           token_balanceOf e 0 (token1 p) = Inr balance1 \<and>
           input_amount balance0 (reserve0 p) amount0Out = Inr amount0In \<and>
           input_amount balance1 (reserve1 p) amount1Out = Inr amount1In \<and>
           amount0In * 3 \<le> balance0 * 1000 \<and> amount1In * 3 \<le> balance1 * 1000 \<and>
           reserve0 p * reserve1 p * 1000 ^ 2
             \<le> (balance0 * 1000 - amount0In * 3) * (balance1 * 1000 - amount1In * 3) \<and>
           pair_update e p balance0 balance1 (reserve0 p) (reserve1 p) = Inr p'"
  using assms
  unfolding swap_def Let_def fst_seq_Inr fst_lift
  by (auto simp: adjusted_Inr dest!: check_K_Inr)

lemma K_monotone:
  fixes b0 b1 i0 i1 r0 r1 :: nat
  assumes "r0 * r1 * 1000 ^ 2 \<le> (b0 * 1000 - i0 * 3) * (b1 * 1000 - i1 * 3)"
  shows "r0 * r1 \<le> b0 * b1"
proof -
  have "(b0 * 1000 - i0 * 3) * (b1 * 1000 - i1 * 3) \<le> (b0 * 1000) * (b1 * 1000)"
    by (intro mult_le_mono) simp_all
  with assms have "r0 * r1 * 1000 ^ 2 \<le> b0 * b1 * 1000 ^ 2"
    by (simp add: algebra_simps)
  then show ?thesis by simp
qed

lemma swap_product:
  assumes "fst (swap e p amount0Out amount1Out to data) = Inr p'"
  shows "reserve0 p * reserve1 p \<le> reserve0 p' * reserve1 p'"
proof -
  from swap_Inr [OF assms] obtain b0 b1 i0 i1 where
    k: "reserve0 p * reserve1 p * 1000 ^ 2 \<le> (b0 * 1000 - i0 * 3) * (b1 * 1000 - i1 * 3)"
    and u: "pair_update e p b0 b1 (reserve0 p) (reserve1 p) = Inr p'"
    by blast
  from K_monotone [OF k] pair_update_Inr(1,2) [OF u] show ?thesis by simp
qed

lemma pair_run_mono:
  fixes f :: "pair \<Rightarrow> nat"
  assumes "\<And>e c q. (e, c) \<in> set calls \<Longrightarrow> f q \<le> f (commit q (pair_step e q c))"
  shows "sorted_wrt (\<lambda>a b. f a \<le> f b) (pair_run p calls) \<and>
         (\<forall>q \<in> set (pair_run p calls). f p \<le> f q)"
  using assms
proof (induction calls arbitrary: p)
  case Nil
  then show ?case by simp
next
  case (Cons c calls)
  obtain e k where c: "c = (e, k)" by (cases c)
  define p' where "p' = commit p (pair_step e p k)"
  have step: "f p \<le> f p'" unfolding p'_def by (rule Cons.prems) (simp add: c)
  have "sorted_wrt (\<lambda>a b. f a \<le> f b) (pair_run p' calls) \<and>
         (\<forall>q \<in> set (pair_run p' calls). f p' \<le> f q)"
    by (rule Cons.IH) (simp add: Cons.prems)
  moreover from this step have "\<forall>q \<in> set (pair_run p' calls). f p \<le> f q"
    using le_trans by blast
  ultimately show ?case by (simp add: c p'_def)
qed

lemma pair_run_swaps:
  assumes "\<forall>c \<in> set calls. is_swap (snd c)"
  shows "sorted_wrt (\<lambda>a b. reserve0 a * reserve1 a \<le> reserve0 b * reserve1 b) (pair_run p calls)"
proof -
  have "reserve0 q * reserve1 q
          \<le> reserve0 (commit q (pair_step e q c)) * reserve1 (commit q (pair_step e q c))"
    if "(e, c) \<in> set calls" for e c q
  proof -
    from that assms obtain a0 a1 to data where c: "c = Swap a0 a1 to data"
      by (cases c) auto
    show ?thesis
      using swap_product [of e q a0 a1 to data]
      by (cases "fst (swap e q a0 a1 to data)") (simp_all add: c commit_def)
  qed
  from pair_run_mono [of calls "\<lambda>q. reserve0 q * reserve1 q", OF this] show ?thesis
    by blast
qed

lemma example_swap:
  "swap example_env example_pair 0 90 7 [] =
     (Inr (example_pair\<lparr>price0CumulativeLast := 10 ^ 21, price1CumulativeLast := 10 ^ 21,
                        reserve0 := 1100, reserve1 := 910, blockTimestampLast := 1700000000\<rparr>),
      [Transfer 12 7 90])"
  by (simp add: swap_def seq_def lift_def ret_def require_def safeTransfer_def token_balanceOf_def
      input_amount_def adjusted_def check_K_def pair_update_def accumulate_def
      bind_def sub_def mul_def add_def udiv_def MAX_UINT256_def MAX_UINT112_def
      example_env_def example_pair_def)

text \<open>
  C1. When \<open>swap\<close> succeeds, the balances \<open>balance0\<close>, \<open>balance1\<close> read after the
  transfers and the inputs \<open>amount0In\<close>, \<open>amount1In\<close> derived from them satisfy
  \<open>(balance0 * 1000 - amount0In * 3) * (balance1 * 1000 - amount1In * 3) \<ge>
  reserve0 * reserve1 * 1000^2\<close> (neither subtraction is cut off), these balances are
  the new reserves, and the product of the reserves has not decreased. Consequently, along
  any history of swap calls on one pool (a failed call changes nothing), the product
  \<open>reserve0 * reserve1\<close> never decreases from one state to any later one.
\<close>

theorem swap_K_invariant:
  "(fst (swap e p amount0Out amount1Out to data) = Inr p' \<longrightarrow>
      (\<exists>balance0 balance1 amount0In amount1In.
         token_balanceOf e 0 (token0 p) = Inr balance0 \<and>
         token_balanceOf e 0 (token1 p) = Inr balance1 \<and>
         input_amount balance0 (reserve0 p) amount0Out = Inr amount0In \<and>
         input_amount balance1 (reserve1 p) amount1Out = Inr amount1In \<and>
         amount0In * 3 \<le> balance0 * 1000 \<and> amount1In * 3 \<le> balance1 * 1000 \<and>
         reserve0 p * reserve1 p * 1000 ^ 2
           \<le> (balance0 * 1000 - amount0In * 3) * (balance1 * 1000 - amount1In * 3) \<and>
         reserve0 p' = balance0 \<and> reserve1 p' = balance1) \<and>
      reserve0 p * reserve1 p \<le> reserve0 p' * reserve1 p') \<and>
   ((\<forall>c \<in> set calls. is_swap (snd c)) \<longrightarrow>
      sorted_wrt (\<lambda>a b. reserve0 a * reserve1 a \<le> reserve0 b * reserve1 b) (pair_run p calls))"
proof (intro conjI impI)
  assume ok: "fst (swap e p amount0Out amount1Out to data) = Inr p'"
  from swap_Inr [OF ok] obtain b0 b1 i0 i1 where
    *: "token_balanceOf e 0 (token0 p) = Inr b0" "token_balanceOf e 0 (token1 p) = Inr b1"
       "input_amount b0 (reserve0 p) amount0Out = Inr i0"
       "input_amount b1 (reserve1 p) amount1Out = Inr i1"
       "i0 * 3 \<le> b0 * 1000" "i1 * 3 \<le> b1 * 1000"
       "reserve0 p * reserve1 p * 1000 ^ 2 \<le> (b0 * 1000 - i0 * 3) * (b1 * 1000 - i1 * 3)"
    and u: "pair_update e p b0 b1 (reserve0 p) (reserve1 p) = Inr p'"
    by blast
  from * pair_update_Inr(1,2) [OF u]
  show "\<exists>balance0 balance1 amount0In amount1In.
         token_balanceOf e 0 (token0 p) = Inr balance0 \<and>
         token_balanceOf e 0 (token1 p) = Inr balance1 \<and>
         input_amount balance0 (reserve0 p) amount0Out = Inr amount0In \<and>
         input_amount balance1 (reserve1 p) amount1Out = Inr amount1In \<and>
         amount0In * 3 \<le> balance0 * 1000 \<and> amount1In * 3 \<le> balance1 * 1000 \<and>
         reserve0 p * reserve1 p * 1000 ^ 2
           \<le> (balance0 * 1000 - amount0In * 3) * (balance1 * 1000 - amount1In * 3) \<and>
         reserve0 p' = balance0 \<and> reserve1 p' = balance1"
    by blast
  from swap_product [OF ok] show "reserve0 p * reserve1 p \<le> reserve0 p' * reserve1 p'" .
next
  assume "\<forall>c \<in> set calls. is_swap (snd c)"
  from pair_run_swaps [OF this]
  show "sorted_wrt (\<lambda>a b. reserve0 a * reserve1 a \<le> reserve0 b * reserve1 b) (pair_run p calls)"
    by blast
qed

theorem swap_K_invariant_witness:
  "(\<exists>p'. fst (swap example_env example_pair 0 90 7 []) = Inr p' \<and>
         reserve0 p' = 1100 \<and> reserve1 p' = 910 \<and>
         reserve0 example_pair * reserve1 example_pair \<le> reserve0 p' * reserve1 p') \<and>
   is_swap (Swap 0 90 7 []) \<and>
   sorted_wrt (\<lambda>a b. reserve0 a * reserve1 a \<le> reserve0 b * reserve1 b)
     (pair_run example_pair [(example_env, Swap 0 90 7 [])])"
proof -
  define p' where
    "p' = example_pair\<lparr>price0CumulativeLast := 10 ^ 21, price1CumulativeLast := 10 ^ 21,
                        reserve0 := 1100, reserve1 := 910, blockTimestampLast := 1700000000\<rparr>"
  have ok: "fst (swap example_env example_pair 0 90 7 []) = Inr p'"
    by (simp add: example_swap p'_def)
  have sw: "\<forall>c \<in> set [(example_env, Swap 0 90 7 [])]. is_swap (snd c)" by simp
  from swap_K_invariant [of example_env example_pair 0 90 7 "[]" p'
      "[(example_env, Swap 0 90 7 [])]"] ok sw
  have "reserve0 example_pair * reserve1 example_pair \<le> reserve0 p' * reserve1 p'"
    and "sorted_wrt (\<lambda>a b. reserve0 a * reserve1 a \<le> reserve0 b * reserve1 b)
           (pair_run example_pair [(example_env, Swap 0 90 7 [])])"
    by blast+
  with ok sw show ?thesis by (auto simp: p'_def)
qed

text \<open>
  C8 (as amended). For every pool state, recipient and callback data, \<open>swap(0, 0, to, data)\<close>
  fails with INSUFFICIENT_OUTPUT_AMOUNT before any external call and leaves the pool
  as it was; and whenever at least one requested output is positive and either requested
  output is not strictly less than the corresponding reserve, \<open>swap\<close> fails with
  INSUFFICIENT_LIQUIDITY, again before any external call.
\<close>

theorem swap_output_and_liquidity_checks:
  "swap e p 0 0 to data = (Inl (Revert ''DiamondPair: INSUFFICIENT_OUTPUT_AMOUNT''), []) \<and>
   commit p (fst (swap e p 0 0 to data)) = p \<and>
   ((amount0Out > 0 \<or> amount1Out > 0) \<and>
    \<not> (amount0Out < reserve0 p \<and> amount1Out < reserve1 p) \<longrightarrow>
      swap e p amount0Out amount1Out to data =
        (Inl (Revert ''DiamondPair: INSUFFICIENT_LIQUIDITY''), []))"
  using swap_no_output [of 0 0 e p to data] swap_no_liquidity [of amount0Out amount1Out p e to data]
  by (simp add: commit_def)

theorem swap_output_and_liquidity_checks_witness:
  "((2000::nat) > 0 \<or> (0::nat) > 0) \<and>
   \<not> (2000 < reserve0 example_pair \<and> 0 < reserve1 example_pair) \<and>
   swap example_env example_pair 2000 0 7 [] =
     (Inl (Revert ''DiamondPair: INSUFFICIENT_LIQUIDITY''), [])"
  using swap_output_and_liquidity_checks [of example_env example_pair 7 "[]" 2000 0]
  by (simp add: example_pair_def)

text \<open>
  C8 as stated fails on a pool with a zero reserve: there \<open>swap(0, 0, to, data)\<close> requests
  an output that is not strictly less than the reserve, and the failure is
  INSUFFICIENT_OUTPUT_AMOUNT, not INSUFFICIENT_LIQUIDITY, because the output check comes
  first.
\<close>

theorem swap_liquidity_counterexample:
  "\<not> (0 < reserve0 example_empty_pair) \<and>
   swap example_env example_empty_pair 0 0 7 [] =
     (Inl (Revert ''DiamondPair: INSUFFICIENT_OUTPUT_AMOUNT''), []) \<and>
   Revert ''DiamondPair: INSUFFICIENT_OUTPUT_AMOUNT'' \<noteq> Revert ''DiamondPair: INSUFFICIENT_LIQUIDITY''"
  by (simp add: swap_no_output example_empty_pair_def DiamondPair_constructor_def)

text \<open>
  C9 (as amended). If the recipient \<open>to\<close> equals \<open>token0\<close> or \<open>token1\<close>, \<open>swap\<close> fails
  before any external call, so before any output transfer. The failure is INVALID_TO
  when the two earlier checks pass (an output is positive and both outputs are below the
  reserves); otherwise it is the failure of the earlier check.
\<close>

theorem swap_invalid_recipient:
  "to = token0 p \<or> to = token1 p \<Longrightarrow>
   swap e p amount0Out amount1Out to data =
     (Inl (Revert (if amount0Out = 0 \<and> amount1Out = 0
                   then ''DiamondPair: INSUFFICIENT_OUTPUT_AMOUNT''
                   else if amount0Out < reserve0 p \<and> amount1Out < reserve1 p
                   then ''DiamondPair: INVALID_TO''
                   else ''DiamondPair: INSUFFICIENT_LIQUIDITY'')), [])"
  using swap_no_output [of amount0Out amount1Out e p to data]
    swap_no_liquidity [of amount0Out amount1Out p e to data]
    swap_invalid_to [of amount0Out amount1Out p to e data]
  by (cases "amount0Out = 0 \<and> amount1Out = 0";
      cases "amount0Out < reserve0 p \<and> amount1Out < reserve1 p") auto

theorem swap_invalid_recipient_witness:
  "(11 = token0 example_pair \<or> 11 = token1 example_pair) \<and>
   swap example_env example_pair 0 90 11 [] = (Inl (Revert ''DiamondPair: INVALID_TO''), [])"
  using swap_invalid_recipient [of 11 example_pair example_env 0 90 "[]"]
  by (simp add: example_pair_def)

text \<open>
  C9 as stated fails on the reason of the failure: with the recipient equal to \<open>token0\<close>
  and no output requested, the call fails with INSUFFICIENT_OUTPUT_AMOUNT.
\<close>

theorem swap_invalid_recipient_counterexample:
  "11 = token0 example_pair \<and>
   swap example_env example_pair 0 0 11 [] =
     (Inl (Revert ''DiamondPair: INSUFFICIENT_OUTPUT_AMOUNT''), []) \<and>
   Revert ''DiamondPair: INSUFFICIENT_OUTPUT_AMOUNT'' \<noteq> Revert ''DiamondPair: INVALID_TO''"
  by (simp add: swap_no_output example_pair_def)

section \<open>The pool: \<open>mint\<close> and the share ledger\<close>

lemma erc20_mint_null:
  "erc20_mint p 0 amount = Inl (Revert ''ERC20: mint to the zero address'')"
  by (simp add: erc20_mint_def require_def bind_def)

lemma erc20_mint_Inr:
  assumes "erc20_mint p account amount = Inr p'"
  shows "account \<noteq> 0" "totalSupply p' = totalSupply p + amount"
    "balanceOf p' = (balanceOf p)(account := balanceOf p account + amount)"
  using assms by (auto simp: erc20_mint_def bind_def require_def add_def split: if_splits)

lemma mintFee_zero_supply:
  assumes "mintFee e p r0 r1 = Inr (p1, feeOn)" "totalSupply p = 0"
  shows "totalSupply p1 = 0 \<and> balanceOf p1 = balanceOf p"
  using assms
  by (auto simp: mintFee_def Let_def bind_Inr mul_Inr udiv_Inr split: if_splits)

lemma first_mint_shares_fail:
  "bind (mul amount0 amount1) (\<lambda>product.
   bind (Math_sqrt product) (\<lambda>root.
   bind (sub root MINIMUM_LIQUIDITY) (\<lambda>liquidity.
   bind (erc20_mint p1 0 MINIMUM_LIQUIDITY) (\<lambda>p2.
   Inr (p2, liquidity))))) \<noteq> Inr r"
  by (auto simp: bind_Inr erc20_mint_null)

lemma mint_first_fails:
  assumes "totalSupply p = 0"
  shows "mint e p to \<noteq> Inr r"
proof
  assume ok: "mint e p to = Inr r"
  then obtain b0 b1 p1 feeOn p2 l where
    fee: "mintFee e p (reserve0 p) (reserve1 p) = Inr (p1, feeOn)"
    and shares: "(if totalSupply p1 = 0 then
              bind (mul (b0 - reserve0 p) (b1 - reserve1 p)) (\<lambda>product.
              bind (Math_sqrt product) (\<lambda>root.
              bind (sub root MINIMUM_LIQUIDITY) (\<lambda>liquidity.
              bind (erc20_mint p1 0 MINIMUM_LIQUIDITY) (\<lambda>p2.
              Inr (p2, liquidity)))))
            else
              bind (mul (b0 - reserve0 p) (totalSupply p1)) (\<lambda>n0.
              bind (udiv n0 (reserve0 p)) (\<lambda>l0.
              bind (mul (b1 - reserve1 p) (totalSupply p1)) (\<lambda>n1.
              bind (udiv n1 (reserve1 p)) (\<lambda>l1.
              Inr (p1, Math_min l0 l1)))))) = Inr (p2, l)"
    unfolding mint_def Let_def
    by (auto simp: bind_Inr sub_Inr require_Inr)
  from mintFee_zero_supply [OF fee assms] have "totalSupply p1 = 0" by simp
  with shares first_mint_shares_fail show False by simp
qed

lemma example_mint:
  "mint example_mint_env example_empty_pair 7 =
     Inl (Revert ''ERC20: mint to the zero address'')"
  by (simp add: mint_def mintFee_def Math_sqrt_def sqrt_loop.simps
      erc20_mint_def MINIMUM_LIQUIDITY_def
      require_def token_balanceOf_def
      bind_def sub_def mul_def add_def MAX_UINT256_def
      example_mint_env_def example_env_def example_empty_pair_def DiamondPair_constructor_def)

text \<open>
  C2 (the code falls short of it). In an empty pool (\<open>totalSupply = 0\<close>) \<open>mint\<close> takes
  the branch that computes \<open>floor(sqrt(a * b)) - MINIMUM_LIQUIDITY\<close> and then calls
  \<open>_mint(address(0), MINIMUM_LIQUIDITY)\<close>, commented \<open>permanently lock the first
  MINIMUM_LIQUIDITY tokens\<close>. The inherited ledger rejects the null address as the receiver
  of a mint, so no first mint ever returns: nothing is minted to the depositor and nothing
  is locked. On a fresh pool that received 4000 and 9000, where the depositor should get
  \<open>floor(sqrt(36000000)) - 1000 = 5000\<close> shares, the call reverts with
  \<open>ERC20: mint to the zero address\<close>.
\<close>

theorem first_mint_reverts:
  "totalSupply p = 0 \<Longrightarrow> \<exists>err. mint e p to = Inl err"
  using mint_first_fails [of p e to] by (cases "mint e p to") auto

theorem first_mint_reverts_witness:
  "totalSupply example_empty_pair = 0 \<and>
   token_balanceOf example_mint_env 0 (token0 example_empty_pair) = Inr 4000 \<and>
   token_balanceOf example_mint_env 0 (token1 example_empty_pair) = Inr 9000 \<and>
   Math_sqrt (4000 * 9000) = Inr 6000 \<and>
   mint example_mint_env example_empty_pair 7 =
     Inl (Revert ''ERC20: mint to the zero address'')"
proof -
  have empty: "totalSupply example_empty_pair = 0"
    by (simp add: example_empty_pair_def DiamondPair_constructor_def)
  from first_mint_reverts [OF empty, of example_mint_env 7] example_mint
  have "mint example_mint_env example_empty_pair 7 =
     Inl (Revert ''ERC20: mint to the zero address'')" by simp
  moreover have "Math_sqrt (4000 * 9000) = Inr 6000"
    by (simp add: Math_sqrt_def sqrt_loop.simps bind_def add_def MAX_UINT256_def)
  moreover have
    "token_balanceOf example_mint_env 0 (token0 example_empty_pair) = Inr 4000"
    "token_balanceOf example_mint_env 0 (token1 example_empty_pair) = Inr 9000"
    by (simp_all add: token_balanceOf_def example_mint_env_def example_env_def
        example_empty_pair_def DiamondPair_constructor_def)
  ultimately show ?thesis using empty by simp
qed

section \<open>The registry: \<open>createPair\<close>\<close>

lemma createPair_identical:
  "tokenA = tokenB \<Longrightarrow>
   createPair e w tokenA tokenB = Inl (Revert ''DiamondFactory: IDENTICAL_ADDRESSES'')"
  by (simp add: createPair_def require_def bind_def)

lemma createPair_zero:
  assumes "tokenA \<noteq> tokenB" "tokenA = 0 \<or> tokenB = 0"
  shows "createPair e w tokenA tokenB = Inl (Revert ''DiamondFactory: ZERO_ADDRESS'')"
proof -
  have "(if tokenA < tokenB then (tokenA, tokenB) else (tokenB, tokenA)) = (0, max tokenA tokenB)"
    using assms by auto
  then show ?thesis
    using assms(1) by (simp add: createPair_def require_def bind_def)
qed

lemma registry_ok_registered:
  assumes "registry_ok w" "getPair (registry w) a b \<noteq> 0"
  shows "a \<noteq> b" "a \<noteq> 0" "b \<noteq> 0" "getPair (registry w) b a = getPair (registry w) a b"
  using assms unfolding registry_ok_def by metis+

lemma createPair_exists:
  assumes "registry_ok w" "getPair (registry w) tokenA tokenB \<noteq> 0"
  shows "createPair e w tokenA tokenB = Inl (Revert ''DiamondFactory: PAIR_EXISTS'')"
proof -
  note r = registry_ok_registered [OF assms]
  show ?thesis
  proof (cases "tokenA < tokenB")
    case True
    with r assms(2) show ?thesis
      by (simp add: createPair_def require_def bind_def)
  next
    case False
    with r assms(2) show ?thesis
      by (simp add: createPair_def require_def bind_def)
  qed
qed

lemma createPair_Inr:
  assumes "createPair e w tokenA tokenB = Inr (w', pair)"
  shows "pair \<noteq> 0" "pairs w pair = None" "tokenA \<noteq> tokenB" "tokenA \<noteq> 0" "tokenB \<noteq> 0"
    "allPairs (registry w') = allPairs (registry w) @ [pair]"
    "getPair (registry w') =
       (\<lambda>x y. if (x = tokenA \<and> y = tokenB) \<or> (x = tokenB \<and> y = tokenA) then pair
               else getPair (registry w) x y)"
    "\<exists>p. pairs w' = (pairs w)(pair \<mapsto> p) \<and> reserve0 p = 0 \<and> reserve1 p = 0 \<and>
           token0 p = min tokenA tokenB \<and> token1 p = max tokenA tokenB"
proof -
  define t0 where "t0 = min tokenA tokenB"
  define t1 where "t1 = max tokenA tokenB"
  have sorted: "(if tokenA < tokenB then (tokenA, tokenB) else (tokenB, tokenA)) = (t0, t1)"
    by (auto simp: t0_def t1_def)
  define inner where "inner = e\<lparr>msg_sender := this e, this := create2 e w t0 t1\<rparr>"
  from assms have ne: "tokenA \<noteq> tokenB" and z: "t0 \<noteq> 0"
    and new: "create2 e w t0 t1 \<noteq> 0" and pair: "pair = create2 e w t0 t1"
    and w': "w' = w\<lparr>registry := (registry w)
               \<lparr>getPair := ((getPair (registry w))(t0 := (getPair (registry w) t0)(t1 := pair)))
                    (t1 := (((getPair (registry w))(t0 := (getPair (registry w) t0)(t1 := pair))) t1)(t0 := pair)),
                allPairs := allPairs (registry w) @ [pair]\<rparr>,
             pairs := (pairs w)(pair \<mapsto> (DiamondPair_constructor inner)\<lparr>token0 := t0, token1 := t1\<rparr>)\<rparr>"
    unfolding createPair_def sorted
    by (auto simp: bind_Inr require_Inr Let_def initialize_def inner_def split: if_splits)
  show "tokenA \<noteq> tokenB" by fact
  from z ne show "tokenA \<noteq> 0" "tokenB \<noteq> 0" by (auto simp: t0_def min_def split: if_splits)
  from new pair show "pair \<noteq> 0" by simp
  from new pair show "pairs w pair = None"
    by (auto simp: create2_def Let_def split: if_splits)
  show "allPairs (registry w') = allPairs (registry w) @ [pair]" by (simp add: w')
  have t: "(t0 = tokenA \<and> t1 = tokenB) \<or> (t0 = tokenB \<and> t1 = tokenA)"
    by (auto simp: t0_def t1_def min_def max_def)
  show "getPair (registry w') =
       (\<lambda>x y. if (x = tokenA \<and> y = tokenB) \<or> (x = tokenB \<and> y = tokenA) then pair
               else getPair (registry w) x y)"
    using t ne by (auto simp: w' fun_eq_iff)
  show "\<exists>p. pairs w' = (pairs w)(pair \<mapsto> p) \<and> reserve0 p = 0 \<and> reserve1 p = 0 \<and>
           token0 p = min tokenA tokenB \<and> token1 p = max tokenA tokenB"
    by (rule exI [of _ "(DiamondPair_constructor inner)\<lparr>token0 := t0, token1 := t1\<rparr>"])
       (simp add: w' DiamondPair_constructor_def t0_def t1_def)
qed

lemma registry_ok_initial: "registry_ok initial_world"
  by (simp add: registry_ok_def initial_world_def DiamondFactory_initial_def)

lemma createPair_registry_ok:
  assumes "registry_ok w" "createPair e w tokenA tokenB = Inr (w', pair)"
  shows "registry_ok w'"
proof -
  note c = createPair_Inr [OF assms(2)]
  from c(8) obtain p where p: "pairs w' = (pairs w)(pair \<mapsto> p)" by blast
  from assms(1) have ok: "\<And>a b. getPair (registry w) a b = getPair (registry w) b a"
    "\<And>a. getPair (registry w) a a = 0" "\<And>b. getPair (registry w) 0 b = 0"
    "\<And>a. a \<in> set (allPairs (registry w)) \<Longrightarrow> pairs w a \<noteq> None"
    unfolding registry_ok_def by blast+
  show ?thesis
    unfolding registry_ok_def c(6) c(7) p
    using ok c(3,4,5) by auto
qed

lemma createPair_fresh:
  assumes "registry_ok w" "createPair e w tokenA tokenB = Inr (w', pair)"
  shows "pair \<notin> set (allPairs (registry w))"
  using assms(1) createPair_Inr(2) [OF assms(2)] unfolding registry_ok_def by auto

lemma example_createPair:
  "\<exists>w'. createPair example_env initial_world 12 11 = Inr (w', 123)"
  by (simp add: createPair_def require_def bind_def create2_def initialize_def Let_def
      DiamondPair_constructor_def initial_world_def DiamondFactory_initial_def example_env_def)


text \<open>
  C7 (as amended). On a registry in a reachable state, \<open>createPair(tokenA, tokenB)\<close>
  fails with IDENTICAL_ADDRESSES when \<open>tokenA = tokenB\<close>; fails with ZERO_ADDRESS when
  the two differ and either is the null address (the code checks the smaller token, and
  the null address is the smallest); fails with PAIR_EXISTS when a pool is registered for
  the pair under either ordering; and on success registers exactly one new pool: its
  address is not null and was neither listed nor deployed before, it is appended to the
  list, it is what the lookup returns under both orderings, every other lookup is as
  before, and the pool is deployed with the two tokens in canonical order.
\<close>

theorem createPair_outcomes:
  assumes "registry_ok w"
  shows "(tokenA = tokenB \<longrightarrow>
            createPair e w tokenA tokenB = Inl (Revert ''DiamondFactory: IDENTICAL_ADDRESSES'')) \<and>
         (tokenA \<noteq> tokenB \<and> (tokenA = 0 \<or> tokenB = 0) \<longrightarrow>
            createPair e w tokenA tokenB = Inl (Revert ''DiamondFactory: ZERO_ADDRESS'')) \<and>
         (getPair (registry w) tokenA tokenB \<noteq> 0 \<or> getPair (registry w) tokenB tokenA \<noteq> 0 \<longrightarrow>
            createPair e w tokenA tokenB = Inl (Revert ''DiamondFactory: PAIR_EXISTS'')) \<and>
         (createPair e w tokenA tokenB = Inr (w', pair) \<longrightarrow>
            pair \<noteq> 0 \<and> pair \<notin> set (allPairs (registry w)) \<and> pairs w pair = None \<and>
            allPairs (registry w') = allPairs (registry w) @ [pair] \<and>
            getPair (registry w') tokenA tokenB = pair \<and>
            getPair (registry w') tokenB tokenA = pair \<and>
            (\<forall>x y. {x, y} \<noteq> {tokenA, tokenB} \<longrightarrow>
               getPair (registry w') x y = getPair (registry w) x y) \<and>
            (\<exists>p. pairs w' = (pairs w)(pair \<mapsto> p) \<and>
                 token0 p = min tokenA tokenB \<and> token1 p = max tokenA tokenB) \<and>
            registry_ok w')"
proof (intro conjI impI)
  assume "tokenA = tokenB"
  then show "createPair e w tokenA tokenB = Inl (Revert ''DiamondFactory: IDENTICAL_ADDRESSES'')"
    by (rule createPair_identical)
next
  assume "tokenA \<noteq> tokenB \<and> (tokenA = 0 \<or> tokenB = 0)"
  then show "createPair e w tokenA tokenB = Inl (Revert ''DiamondFactory: ZERO_ADDRESS'')"
    using createPair_zero by blast
next
  assume "getPair (registry w) tokenA tokenB \<noteq> 0 \<or> getPair (registry w) tokenB tokenA \<noteq> 0"
  then have "getPair (registry w) tokenA tokenB \<noteq> 0"
    using registry_ok_registered(4) [OF assms] by metis
  then show "createPair e w tokenA tokenB = Inl (Revert ''DiamondFactory: PAIR_EXISTS'')"
    by (rule createPair_exists [OF assms])
next
  assume ok: "createPair e w tokenA tokenB = Inr (w', pair)"
  note c = createPair_Inr [OF ok]
  show "pair \<noteq> 0" "pairs w pair = None"
    "allPairs (registry w') = allPairs (registry w) @ [pair]" by (fact c)+
  show "pair \<notin> set (allPairs (registry w))" by (rule createPair_fresh [OF assms ok])
  show "getPair (registry w') tokenA tokenB = pair" "getPair (registry w') tokenB tokenA = pair"
    by (simp_all add: c(7))
  show "\<forall>x y. {x, y} \<noteq> {tokenA, tokenB} \<longrightarrow>
               getPair (registry w') x y = getPair (registry w) x y"
    by (auto simp: c(7))
  from c(8) show "\<exists>p. pairs w' = (pairs w)(pair \<mapsto> p) \<and>
                 token0 p = min tokenA tokenB \<and> token1 p = max tokenA tokenB"
    by blast
  show "registry_ok w'" by (rule createPair_registry_ok [OF assms ok])
qed

theorem createPair_outcomes_witness:
  "registry_ok initial_world \<and>
   (\<exists>w'. createPair example_env initial_world 12 11 = Inr (w', 123) \<and>
         getPair (registry w') 11 12 = 123 \<and> getPair (registry w') 12 11 = 123 \<and>
         allPairs (registry w') = [123] \<and>
         createPair example_env w' 11 12 = Inl (Revert ''DiamondFactory: PAIR_EXISTS''))"
proof -
  from example_createPair obtain w' where
    ok: "createPair example_env initial_world 12 11 = Inr (w', 123)" by blast
  from createPair_outcomes [OF registry_ok_initial, of 12 11 example_env w' 123] ok
  have 1: "getPair (registry w') 12 11 = 123" "getPair (registry w') 11 12 = 123"
    "allPairs (registry w') = allPairs (registry initial_world) @ [123]" "registry_ok w'"
    by blast+
  from createPair_outcomes [OF 1(4), of 11 12 example_env] 1(2)
  have "createPair example_env w' 11 12 = Inl (Revert ''DiamondFactory: PAIR_EXISTS'')"
    by simp
  with ok 1 registry_ok_initial show ?thesis
    by (auto simp: initial_world_def DiamondFactory_initial_def)
qed

text \<open>
  C7 as stated fails where both arguments are the null address: an argument is null, and
  the failure is IDENTICAL_ADDRESSES, not ZERO_ADDRESS, because that check comes first.
\<close>

theorem createPair_counterexample:
  "createPair example_env initial_world 0 0 = Inl (Revert ''DiamondFactory: IDENTICAL_ADDRESSES'') \<and>
   Revert ''DiamondFactory: IDENTICAL_ADDRESSES'' \<noteq> Revert ''DiamondFactory: ZERO_ADDRESS''"
  by (simp add: createPair_identical)

section \<open>The router: \<open>addLiquidity\<close>\<close>

lemma quote_Inr:
  "quote a rA rB = Inr q \<longleftrightarrow>
     0 < a \<and> 0 < rA \<and> 0 < rB \<and> a * rB \<le> MAX_UINT256 \<and> q = a * rB div rA"
  by (auto simp: quote_def bind_Inr require_Inr mul_Inr udiv_Inr)

lemma quote_back:
  assumes "quote dA rA rB = Inr qB" "dB < qB" "quote dB rB rA = Inr qA"
  shows "qA \<le> dA"
proof -
  from assms have pos: "0 < rA" "0 < rB" and qB: "qB = dA * rB div rA" and qA: "qA = dB * rA div rB"
    by (simp_all add: quote_Inr)
  from assms(2) qB have "dB + 1 \<le> dA * rB div rA" by simp
  with pos have "(dB + 1) * rA \<le> dA * rB" by (simp add: less_eq_div_iff_mult_less_eq)
  then have "dB * rA \<le> dA * rB" by simp
  then have "dB * rA div rB \<le> dA * rB div rB" by (rule div_le_mono)
  with pos qA show ?thesis by simp
qed

lemma calculateLiquidityAmounts_existing:
  assumes "pairFor w tokenA tokenB \<noteq> 0" "getReserves w tokenA tokenB = Inr (reserveA, reserveB)"
  shows "calculateLiquidityAmounts w tokenA tokenB dA dB mA mB =
     (if reserveA = 0 \<and> reserveB = 0 then Inr (dA, dB)
      else
        bind (quote dA reserveA reserveB) (\<lambda>amountBOptimal.
        if amountBOptimal \<le> dB then
          bind (require (amountBOptimal \<ge> mB) ''DiamondRouter: INSUFFICIENT_B_AMOUNT'') (\<lambda>_.
          Inr (dA, amountBOptimal))
        else
          bind (quote dB reserveB reserveA) (\<lambda>amountAOptimal.
          bind (if amountAOptimal \<le> dA then Inr () else Inl AssertFailed) (\<lambda>_.
          bind (require (amountAOptimal \<ge> mA) ''DiamondRouter: INSUFFICIENT_A_AMOUNT'') (\<lambda>_.
          Inr (amountAOptimal, dB))))))"
  using assms by (simp add: calculateLiquidityAmounts_def Let_def bind_def)

lemma addLiquidity_existing:
  assumes "pairFor w tokenA tokenB \<noteq> 0"
  shows "addLiquidity rt e w tokenA tokenB dA dB mA mB to =
     (case calculateLiquidityAmounts w tokenA tokenB dA dB mA mB of
        Inl err \<Rightarrow> (Inl err, [])
      | Inr (amountA, amountB) \<Rightarrow>
          deposit e w (pairFor w tokenA tokenB) tokenA tokenB amountA amountB to)"
  using assms
  by (simp add: addLiquidity_def seq_lift_Inr seq_lift_Inl seq_def ret_def lift_def
      split: sum.splits prod.splits)

lemma getReserves_created:
  assumes "createPair e w tokenA tokenB = Inr (w', pair)"
  shows "pairFor w' tokenA tokenB = pair" "getReserves w' tokenA tokenB = Inr (0, 0)"
proof -
  note c = createPair_Inr [OF assms]
  show pf: "pairFor w' tokenA tokenB = pair" by (simp add: pairFor_def c(7))
  from c(8) obtain p where p: "pairs w' pair = Some p" "reserve0 p = 0" "reserve1 p = 0"
    by auto
  have "\<exists>t0 t1. sortTokens tokenA tokenB = Inr (t0, t1)"
    using c(3,4,5) by (auto simp: sortTokens_def bind_def require_def)
  then show "getReserves w' tokenA tokenB = Inr (0, 0)"
    using pf p c(1) by (auto simp: getReserves_def bind_def Let_def)
qed

lemma addLiquidity_new:
  assumes "pairFor w tokenA tokenB = 0"
  shows "addLiquidity rt e w tokenA tokenB dA dB mA mB to =
     (case createPair (e\<lparr>msg_sender := this e, this := router_factory rt\<rparr>) w tokenA tokenB of
        Inl err \<Rightarrow> (Inl err, [])
      | Inr (w', pair) \<Rightarrow> deposit e w' pair tokenA tokenB dA dB to)"
proof (cases "createPair (e\<lparr>msg_sender := this e, this := router_factory rt\<rparr>) w tokenA tokenB")
  case (Inl err)
  with assms show ?thesis by (simp add: addLiquidity_def seq_lift_Inl)
next
  case (Inr r)
  obtain w' pair where r: "r = (w', pair)" by (cases r)
  note c = createPair_Inr(1) [OF Inr [unfolded r]]
  note g = getReserves_created [OF Inr [unfolded r]]
  have calc: "calculateLiquidityAmounts w' tokenA tokenB dA dB mA mB = Inr (dA, dB)"
    using g c by (simp add: calculateLiquidityAmounts_def Let_def bind_def)
  show ?thesis
    using assms by (simp add: addLiquidity_def Inr r calc seq_lift_Inr)
qed

lemma example_getReserves: "getReserves example_world 11 12 = Inr (1000, 1000)"
  by (simp add: getReserves_def sortTokens_def pairFor_def bind_def require_def Let_def
      example_world_def example_pair_def)

lemma example_createPair_by_router:
  "\<exists>w'. createPair (example_env\<lparr>msg_sender := this example_env, this := router_factory example_router\<rparr>)
          initial_world 11 12 = Inr (w', 123)"
  by (simp add: createPair_def require_def bind_def create2_def initialize_def Let_def
      DiamondPair_constructor_def initial_world_def DiamondFactory_initial_def example_env_def)

lemma example_deposit_any:
  "deposit example_env w pair tokenA tokenB a b 7 =
     (Inr ((a, b, 1000), w),
      [TransferFrom tokenA 9 pair a, TransferFrom tokenB 9 pair b, PairMint pair 7])"
  by (simp add: seq_def ret_def safeTransferFrom_def pair_mint_def require_def example_env_def)

text \<open>
  C6. For \<open>addLiquidity\<close> against an existing pool with positive reserves
  \<open>(reserveA, reserveB)\<close>: if \<open>quote(desiredA, reserveA, reserveB)\<close> is at most
  \<open>desiredB\<close>, the call fails with INSUFFICIENT_B_AMOUNT when that quote is below
  \<open>minB\<close> and otherwise deposits \<open>(desiredA, quote)\<close> (it transfers these amounts to the
  pool, mints, and returns them); if the quote exceeds \<open>desiredB\<close>, the call fails with
  INSUFFICIENT_A_AMOUNT when \<open>quote(desiredB, reserveB, reserveA)\<close> is below \<open>minA\<close> and
  otherwise deposits \<open>(that quote, desiredB)\<close>. If the pool exists with both reserves
  zero, or no pool exists and \<open>createPair\<close> creates one, the desired amounts are deposited
  unmodified; if \<open>createPair\<close> fails, so does the call.
\<close>

theorem addLiquidity_amounts:
  "(pairFor w tokenA tokenB \<noteq> 0 \<and> getReserves w tokenA tokenB = Inr (reserveA, reserveB) \<longrightarrow>
      (0 < reserveA \<and> 0 < reserveB \<and> quote dA reserveA reserveB = Inr qB \<and> qB \<le> dB \<longrightarrow>
         addLiquidity rt e w tokenA tokenB dA dB mA mB to =
           (if mB \<le> qB then deposit e w (pairFor w tokenA tokenB) tokenA tokenB dA qB to
            else (Inl (Revert ''DiamondRouter: INSUFFICIENT_B_AMOUNT''), []))) \<and>
      (0 < reserveA \<and> 0 < reserveB \<and> quote dA reserveA reserveB = Inr qB \<and> dB < qB \<and>
       quote dB reserveB reserveA = Inr qA \<longrightarrow>
         addLiquidity rt e w tokenA tokenB dA dB mA mB to =
           (if mA \<le> qA then deposit e w (pairFor w tokenA tokenB) tokenA tokenB qA dB to
            else (Inl (Revert ''DiamondRouter: INSUFFICIENT_A_AMOUNT''), []))) \<and>
      (reserveA = 0 \<and> reserveB = 0 \<longrightarrow>
         addLiquidity rt e w tokenA tokenB dA dB mA mB to =
           deposit e w (pairFor w tokenA tokenB) tokenA tokenB dA dB to)) \<and>
   (pairFor w tokenA tokenB = 0 \<longrightarrow>
      (case createPair (e\<lparr>msg_sender := this e, this := router_factory rt\<rparr>) w tokenA tokenB of
         Inl err \<Rightarrow> addLiquidity rt e w tokenA tokenB dA dB mA mB to = (Inl err, [])
       | Inr (w', pair) \<Rightarrow>
           addLiquidity rt e w tokenA tokenB dA dB mA mB to =
             deposit e w' pair tokenA tokenB dA dB to))"
proof (intro conjI impI)
  assume a: "pairFor w tokenA tokenB \<noteq> 0 \<and> getReserves w tokenA tokenB = Inr (reserveA, reserveB)"
  note calc = calculateLiquidityAmounts_existing [of w tokenA tokenB reserveA reserveB dA dB mA mB]
  note al = addLiquidity_existing [of w tokenA tokenB rt e dA dB mA mB to]
  {
    assume "0 < reserveA \<and> 0 < reserveB \<and> quote dA reserveA reserveB = Inr qB \<and> qB \<le> dB"
    with a calc al
    show "addLiquidity rt e w tokenA tokenB dA dB mA mB to =
           (if mB \<le> qB then deposit e w (pairFor w tokenA tokenB) tokenA tokenB dA qB to
            else (Inl (Revert ''DiamondRouter: INSUFFICIENT_B_AMOUNT''), []))"
      by (simp add: bind_def require_def)
  }
  {
    assume b: "0 < reserveA \<and> 0 < reserveB \<and> quote dA reserveA reserveB = Inr qB \<and> dB < qB \<and>
       quote dB reserveB reserveA = Inr qA"
    then have "qA \<le> dA" using quote_back [of dA reserveA reserveB qB dB qA] by simp
    with a b calc al
    show "addLiquidity rt e w tokenA tokenB dA dB mA mB to =
           (if mA \<le> qA then deposit e w (pairFor w tokenA tokenB) tokenA tokenB qA dB to
            else (Inl (Revert ''DiamondRouter: INSUFFICIENT_A_AMOUNT''), []))"
      by (simp add: bind_def require_def)
  }
  {
    assume "reserveA = 0 \<and> reserveB = 0"
    with a calc al
    show "addLiquidity rt e w tokenA tokenB dA dB mA mB to =
           deposit e w (pairFor w tokenA tokenB) tokenA tokenB dA dB to"
      by simp
  }
next
  assume "pairFor w tokenA tokenB = 0"
  from addLiquidity_new [OF this, of rt e dA dB mA mB to]
  show "case createPair (e\<lparr>msg_sender := this e, this := router_factory rt\<rparr>) w tokenA tokenB of
         Inl err \<Rightarrow> addLiquidity rt e w tokenA tokenB dA dB mA mB to = (Inl err, [])
       | Inr (w', pair) \<Rightarrow>
           addLiquidity rt e w tokenA tokenB dA dB mA mB to =
             deposit e w' pair tokenA tokenB dA dB to"
    by (simp split: sum.splits prod.splits)
qed


theorem addLiquidity_amounts_witness:
  "pairFor example_world 11 12 \<noteq> 0 \<and> getReserves example_world 11 12 = Inr (1000, 1000) \<and>
   quote 200 1000 1000 = Inr 200 \<and> quote 300 1000 1000 = Inr 300 \<and>
   addLiquidity example_router example_env example_world 11 12 200 300 0 150 7 =
     (Inr ((200, 200, 1000), example_world),
      [TransferFrom 11 9 50 200, TransferFrom 12 9 50 200, PairMint 50 7]) \<and>
   addLiquidity example_router example_env example_world 11 12 200 300 0 250 7 =
     (Inl (Revert ''DiamondRouter: INSUFFICIENT_B_AMOUNT''), []) \<and>
   addLiquidity example_router example_env example_world 11 12 300 200 0 0 7 =
     (Inr ((200, 200, 1000), example_world),
      [TransferFrom 11 9 50 200, TransferFrom 12 9 50 200, PairMint 50 7]) \<and>
   pairFor initial_world 11 12 = 0 \<and>
   (\<exists>w'. addLiquidity example_router example_env initial_world 11 12 500 700 0 0 7 =
     (Inr ((500, 700, 1000), w'),
      [TransferFrom 11 9 123 500, TransferFrom 12 9 123 700, PairMint 123 7]))"
proof -
  have pf: "pairFor example_world 11 12 = 50" by (simp add: pairFor_def example_world_def)
  have pf0: "pairFor initial_world 11 12 = 0"
    by (simp add: pairFor_def initial_world_def DiamondFactory_initial_def)
  have q: "quote 200 1000 1000 = Inr 200" "quote 300 1000 1000 = Inr 300"
    by (simp_all add: quote_Inr MAX_UINT256_def)
  from addLiquidity_amounts [where w = example_world and tokenA = 11 and tokenB = 12
      and reserveA = 1000 and reserveB = 1000 and dA = 200 and dB = 300 and qB = 200
      and mB = 150 and mA = 0 and rt = example_router and e = example_env and to = 7]
    pf q example_getReserves
  have 1: "addLiquidity example_router example_env example_world 11 12 200 300 0 150 7 =
     deposit example_env example_world 50 11 12 200 200 7"
    by simp
  from addLiquidity_amounts [where w = example_world and tokenA = 11 and tokenB = 12
      and reserveA = 1000 and reserveB = 1000 and dA = 200 and dB = 300 and qB = 200
      and mB = 250 and mA = 0 and rt = example_router and e = example_env and to = 7]
    pf q example_getReserves
  have 2: "addLiquidity example_router example_env example_world 11 12 200 300 0 250 7 =
     (Inl (Revert ''DiamondRouter: INSUFFICIENT_B_AMOUNT''), [])"
    by simp
  from addLiquidity_amounts [where w = example_world and tokenA = 11 and tokenB = 12
      and reserveA = 1000 and reserveB = 1000 and dA = 300 and dB = 200 and qB = 300
      and qA = 200 and mB = 0 and mA = 0 and rt = example_router and e = example_env and to = 7]
    pf q example_getReserves
  have 3: "addLiquidity example_router example_env example_world 11 12 300 200 0 0 7 =
     deposit example_env example_world 50 11 12 200 200 7"
    by simp
  from example_createPair_by_router obtain w' where
    c: "createPair (example_env\<lparr>msg_sender := this example_env, this := router_factory example_router\<rparr>)
          initial_world 11 12 = Inr (w', 123)" by blast
  from addLiquidity_amounts [where w = initial_world and tokenA = 11 and tokenB = 12
      and dA = 500 and dB = 700 and mB = 0 and mA = 0 and rt = example_router
      and e = example_env and to = 7] pf0 c
  have 4: "addLiquidity example_router example_env initial_world 11 12 500 700 0 0 7 =
     deposit example_env w' 123 11 12 500 700 7"
    by simp
  from 1 2 3 4 pf pf0 q example_getReserves show ?thesis
    by (simp add: example_deposit_any)
qed

section \<open>The router: \<open>swapExactTokensForTokens\<close>\<close>

lemma amounts_out_hd:
  "amounts_out w amount path = Inr amounts \<Longrightarrow> amounts \<noteq> [] \<and> amounts ! 0 = amount"
  by (induction w amount path rule: amounts_out.induct) (auto simp: bind_Inr)

lemma getAmountsOut_hd:
  "getAmountsOut w amountIn path = Inr amounts \<Longrightarrow>
     2 \<le> length path \<and> amounts \<noteq> [] \<and> amounts ! 0 = amountIn"
  by (auto simp: getAmountsOut_def bind_Inr require_Inr dest: amounts_out_hd)

lemma swapExact_quote_fails:
  assumes "getAmountsOut w amountIn path = Inl err"
  shows "swapExactTokensForTokens e w amountIn amountOutMin path to = (Inl err, [])"
  using assms by (simp add: swapExactTokensForTokens_def seq_lift_Inl)

lemma swapExact_below_min:
  assumes "getAmountsOut w amountIn path = Inr amounts" "last amounts < amountOutMin"
  shows "swapExactTokensForTokens e w amountIn amountOutMin path to =
           (Inl (Revert ''DiamondRouter: INSUFFICIENT_OUTPUT_AMOUNT''), [])"
proof -
  have "\<not> amountOutMin \<le> last amounts" using assms(2) by simp
  note r = require_False [OF this]
  show ?thesis
    unfolding swapExactTokensForTokens_def assms(1) seq_lift_Inr r seq_lift_Inl ..
qed

lemma seq_external:
  "\<exists>r tr. seq (x, [c]) f = (r, c # tr)"
  by (cases x; cases "f (projr x)") (auto simp: seq_def)

lemma swapExact_transfers:
  assumes "getAmountsOut w amountIn path = Inr amounts" "amountOutMin \<le> last amounts"
  shows "\<exists>r tr. swapExactTokensForTokens e w amountIn amountOutMin path to =
           (r, TransferFrom (path ! 0) (msg_sender e) (pairFor w (path ! 0) (path ! 1)) amountIn # tr)"
proof -
  note r = require_True [OF assms(2)]
  from getAmountsOut_hd [OF assms(1)] have hd: "amounts ! 0 = amountIn" by simp
  show ?thesis
    unfolding swapExactTokensForTokens_def assms(1) seq_lift_Inr r safeTransferFrom_def hd
    by (rule seq_external)
qed

lemma example_quote: "getAmountsOut example_world 100 [11, 12] = Inr [100, 90]"
  by (simp add: getAmountsOut_def example_getReserves getAmountOut_cases bind_def require_def
      MAX_UINT256_def)

lemma example_pairFor: "pairFor example_world 11 12 = 50"
  by (simp add: pairFor_def example_world_def)

lemma example_swapExact:
  "swapExactTokensForTokens example_env example_world 100 50 [11, 12] 7 =
     (Inr [100, 90], [TransferFrom 11 9 50 100, PairSwap 50 0 90 7 []])"
  by (simp add: swapExactTokensForTokens_def example_quote example_pairFor seq_def lift_def
      ret_def require_def safeTransferFrom_def pair_swap_def sortTokens_def at_index_def bind_def
      example_env_def)


text \<open>
  C4 (as amended). \<open>swapExactTokensForTokens(amountIn, amountOutMin, path, to)\<close> has no
  deadline parameter and makes no deadline check. It fails before any external call, so
  before any token transfer, when the path has fewer than two tokens, when a hop cannot
  be quoted, or when the final quoted amount is below \<open>amountOutMin\<close>; otherwise,
  whatever the current time, its first state-changing external call is the transfer of
  \<open>amountIn\<close> from the caller to the first pool.
\<close>

theorem swapExactTokensForTokens_fails_before_transfer:
  "(length path < 2 \<longrightarrow>
      swapExactTokensForTokens e w amountIn amountOutMin path to =
        (Inl (Revert ''DiamondRouter: INVALID_PATH''), [])) \<and>
   (getAmountsOut w amountIn path = Inl err \<longrightarrow>
      swapExactTokensForTokens e w amountIn amountOutMin path to = (Inl err, [])) \<and>
   (getAmountsOut w amountIn path = Inr amounts \<and> last amounts < amountOutMin \<longrightarrow>
      swapExactTokensForTokens e w amountIn amountOutMin path to =
        (Inl (Revert ''DiamondRouter: INSUFFICIENT_OUTPUT_AMOUNT''), [])) \<and>
   (getAmountsOut w amountIn path = Inr amounts \<and> amountOutMin \<le> last amounts \<longrightarrow>
      (\<exists>r tr. swapExactTokensForTokens e w amountIn amountOutMin path to =
         (r, TransferFrom (path ! 0) (msg_sender e) (pairFor w (path ! 0) (path ! 1)) amountIn
               # tr)))"
proof (intro conjI impI)
  assume "length path < 2"
  then have "getAmountsOut w amountIn path = Inl (Revert ''DiamondRouter: INVALID_PATH'')"
    by (simp add: getAmountsOut_def require_def bind_def)
  then show "swapExactTokensForTokens e w amountIn amountOutMin path to =
        (Inl (Revert ''DiamondRouter: INVALID_PATH''), [])"
    by (rule swapExact_quote_fails)
next
  assume "getAmountsOut w amountIn path = Inl err"
  then show "swapExactTokensForTokens e w amountIn amountOutMin path to = (Inl err, [])"
    by (rule swapExact_quote_fails)
next
  assume "getAmountsOut w amountIn path = Inr amounts \<and> last amounts < amountOutMin"
  then show "swapExactTokensForTokens e w amountIn amountOutMin path to =
        (Inl (Revert ''DiamondRouter: INSUFFICIENT_OUTPUT_AMOUNT''), [])"
    using swapExact_below_min by blast
next
  assume "getAmountsOut w amountIn path = Inr amounts \<and> amountOutMin \<le> last amounts"
  then show "\<exists>r tr. swapExactTokensForTokens e w amountIn amountOutMin path to =
         (r, TransferFrom (path ! 0) (msg_sender e) (pairFor w (path ! 0) (path ! 1)) amountIn
               # tr)"
    using swapExact_transfers by blast
qed

theorem swapExactTokensForTokens_fails_before_transfer_witness:
  "getAmountsOut example_world 100 [11, 12] = Inr [100, 90] \<and>
   swapExactTokensForTokens example_env example_world 100 91 [11, 12] 7 =
     (Inl (Revert ''DiamondRouter: INSUFFICIENT_OUTPUT_AMOUNT''), []) \<and>
   swapExactTokensForTokens example_env example_world 100 1 [11] 7 =
     (Inl (Revert ''DiamondRouter: INVALID_PATH''), [])"
  using swapExactTokensForTokens_fails_before_transfer
      [of "[11, 12]" example_env example_world 100 91 7 _ "[100, 90]"]
    swapExactTokensForTokens_fails_before_transfer
      [of "[11]" example_env example_world 100 1 7]
    example_quote
  by simp

text \<open>
  C4 as stated fails: the call takes no deadline, and at a time that exceeds a deadline
  (here 1600000000, at time 1700000000) it succeeds and the transfers take place.
\<close>

theorem swapExactTokensForTokens_deadline_counterexample:
  "expired example_env 1600000000 \<and>
   swapExactTokensForTokens example_env example_world 100 50 [11, 12] 7 =
     (Inr [100, 90], [TransferFrom 11 9 50 100, PairSwap 50 0 90 7 []])"
proof
  show "expired example_env 1600000000"
    by (simp add: expired_def example_env_def)
  show "swapExactTokensForTokens example_env example_world 100 50 [11, 12] 7 =
     (Inr [100, 90], [TransferFrom 11 9 50 100, PairSwap 50 0 90 7 []])"
    by (rule example_swapExact)
qed

end
